theory Spec2Isabelle
  imports Main
begin

section \<open>Data model\<close>

text \<open>
  The three profile models of the application (FacebookProfile, TwitterProfile,
  OpenIDProfile) are rows of one table here, told apart by their provider.
\<close>

datatype provider = Facebook | Twitter | OpenID

text \<open>
  A model class of the host project: the account model, one of the three profile
  models, or any other model, named by its class name.
\<close>

datatype model_class = UserModel | ProfileModel provider | DomainModel string

datatype error =
    KeyError
  | DoesNotExist
  | MultipleObjectsReturned
  | FieldError
  | AttributeError
  | IntegrityError
  | ValueError

text \<open>
  A row of the content-type table. \<open>ContentType.objects.get(pk=...)\<close> and
  \<open>get_by_natural_key(app_label, model)\<close> read it.
\<close>

record content_type_row =
  ct_pk :: nat
  app_label :: string
  model :: string
  ct_class :: model_class

text \<open>
  An account. \<open>user_pk\<close> is \<open>None\<close> for an instance that was never saved,
  as \<open>User()\<close> builds it.
\<close>

record user =
  user_pk :: "nat option"
  username :: string
  email :: string
  password :: string
  is_active :: bool

text \<open>
  A model instance used as the target of a link. \<open>absolute_url\<close> is \<open>None\<close>
  when the class has no \<open>get_absolute_url\<close> (the call raises AttributeError).
\<close>

record model_instance =
  inst_class :: model_class
  inst_pk :: nat
  absolute_url :: "string option"

text \<open>
  A profile row. The generic foreign key \<open>content_object\<close> is the pair
  \<open>content_type\<close>, \<open>object_id\<close>; both are \<open>None\<close> while nothing is bound.
  \<open>remote_id\<close> is the field the class names in \<open>remote_id_field\<close>
  (uid, twitter_id, identity). \<open>consumer_key\<close> is \<open>None\<close> when Python's
  \<open>None\<close> was stored.
\<close>

record profile =
  profile_pk :: "nat option"
  provider :: provider
  remote_id :: string
  screenname :: string
  consumer_key :: "string option"
  consumer_secret :: string
  content_type :: "model_class option"
  object_id :: "nat option"

record db =
  users :: "user list"
  profiles :: "profile list"
  objects :: "model_instance list"
  content_types :: "content_type_row list"

type_synonym querydict = "(string \<times> string) list"

record token =
  oauth_token :: "string option"
  oauth_token_secret :: "string option"

text \<open>
  The session, one field per key the views use. \<open>None\<close> is an absent key.
  \<open>socialregistration_connect_object\<close> may be present with the value \<open>None\<close>,
  which is \<open>Some None\<close> here. \<open>auth_user_id\<close> is the key the framework's login
  writes.
\<close>

record session =
  s_next :: "string option"
  socialregistration_user :: "user option"
  socialregistration_profile :: "profile option"
  socialregistration_connect_object :: "model_instance option option"
  s_disconnect_url :: "string option"
  oauth_api_twitter_com_access_token :: "token option"
  oauth_twitter_com_access_token :: "token option"
  auth_user_id :: "nat option"

record facebook_info =
  uid :: "string option"
  fb_user :: "querydict option"

record twitter_user_info =
  tw_id :: string
  screen_name :: string

text \<open>
  The request. \<open>req_user\<close> is \<open>None\<close> for the anonymous user.
  \<open>user_info\<close> is what the Twitter client's \<open>get_user_info\<close> returns and
  \<open>openid_identity\<close> the identity URL of a valid OpenID result (\<open>None\<close> when
  the client is not valid); both clients are outside the sources.
\<close>

record request =
  req_method :: string
  GET :: querydict
  POST :: querydict
  META :: querydict
  req_user :: "user option"
  facebook :: facebook_info
  user_info :: twitter_user_info
  openid_identity :: "string option"
  req_session :: session

text \<open>
  The settings the views read with \<open>getattr\<close>: \<open>None\<close> is a setting that is
  not defined. \<open>setup_url\<close> is \<open>reverse('socialregistration_setup')\<close>.
\<close>

record settings =
  GENERATE_USERNAME :: bool
  LOGIN_REDIRECT_URL :: "string option"
  SOCIALREGISTRATION_DISCONNECT_URL :: "string option"
  setup_url :: string

datatype form = UserForm_unbound | UserForm_bound querydict | ClaimForm_bound querydict | ClaimForm_initial querydict

datatype cval =
    CBool bool
  | CStr string
  | CProfile profile
  | CInstance model_instance
  | CForm form

type_synonym ctx = "(string \<times> cval) list"

datatype response = Redirect string | Render string ctx

text \<open>
  What a view leaves behind: the response or the exception that escaped, the
  database and the session as they are at that point.
\<close>

record result =
  outcome :: "error + response"
  db_after :: db
  session_after :: session

definition raised :: "error \<Rightarrow> db \<Rightarrow> session \<Rightarrow> result" where
  "raised e d s = \<lparr>outcome = Inl e, db_after = d, session_after = s\<rparr>"

definition returned :: "response \<Rightarrow> db \<Rightarrow> session \<Rightarrow> result" where
  "returned r d s = \<lparr>outcome = Inr r, db_after = d, session_after = s\<rparr>"

section \<open>The object-relational layer\<close>

text \<open>
  \<open>Manager.get\<close> on the rows a filter selected: exactly one row or an exception.
\<close>

definition orm_get :: "'a list \<Rightarrow> error + 'a" where
  "orm_get rows = (case rows of [] \<Rightarrow> Inl DoesNotExist
                   | [r] \<Rightarrow> Inr r
                   | _ \<Rightarrow> Inl MultipleObjectsReturned)"

definition next_pk :: "nat option list \<Rightarrow> nat" where
  "next_pk ks = Suc (fold (\<lambda>k m. case k of None \<Rightarrow> m | Some n \<Rightarrow> max n m) ks 0)"

definition get_content_type :: "db \<Rightarrow> nat \<Rightarrow> error + content_type_row" where
  "get_content_type d k = orm_get (filter (\<lambda>c. ct_pk c = k) (content_types d))"

definition get_by_natural_key :: "db \<Rightarrow> string \<Rightarrow> string \<Rightarrow> error + content_type_row" where
  "get_by_natural_key d a m =
     orm_get (filter (\<lambda>c. app_label c = a \<and> model c = m) (content_types d))"

text \<open>
  The account model inherits \<open>get_absolute_url\<close> from the framework, which puts
  the username under \<open>/users/\<close>.
\<close>

definition user_instance :: "user \<Rightarrow> nat \<Rightarrow> model_instance" where
  "user_instance u k =
     \<lparr>inst_class = UserModel, inst_pk = k,
      absolute_url = Some (''/users/'' @ username u @ ''/'')\<rparr>"

definition profile_instance :: "profile \<Rightarrow> nat \<Rightarrow> model_instance" where
  "profile_instance p k =
     \<lparr>inst_class = ProfileModel (provider p), inst_pk = k, absolute_url = None\<rparr>"

text \<open>\<open>model.objects.get(pk=k)\<close> for the class \<open>c\<close>.\<close>

definition get_instance :: "db \<Rightarrow> model_class \<Rightarrow> nat \<Rightarrow> error + model_instance" where
  "get_instance d c k =
     (case c of
        UserModel \<Rightarrow>
          (case orm_get (filter (\<lambda>u. user_pk u = Some k) (users d)) of
             Inl e \<Rightarrow> Inl e
           | Inr u \<Rightarrow> Inr (user_instance u k))
      | ProfileModel pv \<Rightarrow>
          (case orm_get (filter (\<lambda>p. provider p = pv \<and> profile_pk p = Some k) (profiles d)) of
             Inl e \<Rightarrow> Inl e
           | Inr p \<Rightarrow> Inr (profile_instance p k))
      | DomainModel n \<Rightarrow>
          orm_get (filter (\<lambda>i. inst_class i = c \<and> inst_pk i = k) (objects d)))"

text \<open>
  \<open>profile_model.objects.get(content_type__id=t, object_id=k)\<close>. Only the profile
  models have these fields; on another model the lookup raises FieldError.
\<close>

definition get_profile_of_target :: "db \<Rightarrow> model_class \<Rightarrow> nat \<Rightarrow> nat \<Rightarrow> error + profile" where
  "get_profile_of_target d pm t k =
     (case pm of
        ProfileModel pv \<Rightarrow>
          orm_get (filter (\<lambda>p. provider p = pv
                             \<and> list_ex (\<lambda>c. ct_pk c = t \<and> content_type p = Some (ct_class c))
                                   (content_types d)
                             \<and> object_id p = Some k) (profiles d))
      | _ \<Rightarrow> Inl FieldError)"

definition delete_profile :: "profile \<Rightarrow> db \<Rightarrow> db" where
  "delete_profile p d =
     d\<lparr>profiles := filter (\<lambda>q. \<not> (provider q = provider p \<and> profile_pk q = profile_pk p))
                      (profiles d)\<rparr>"

section \<open>Redirect targets\<close>

definition post_disconnect_redirect_url :: "settings \<Rightarrow> model_instance \<Rightarrow> request option \<Rightarrow> string" where
  "post_disconnect_redirect_url cfg inst req =
     (case absolute_url inst of
        Some url \<Rightarrow> url
      | None \<Rightarrow>
          (case (case req of None \<Rightarrow> None | Some r \<Rightarrow> s_disconnect_url (req_session r)) of
             Some url \<Rightarrow> url
           | None \<Rightarrow>
               (case SOCIALREGISTRATION_DISCONNECT_URL cfg of
                  None \<Rightarrow> ''/''
                | Some url \<Rightarrow> if url \<noteq> [] then url else ''/'')))"

text \<open>
  \<open>_get_next\<close>: the URL and the session it leaves (the session key is deleted when
  it was the source).
\<close>

definition get_next :: "settings \<Rightarrow> request \<Rightarrow> session \<Rightarrow> string \<times> session" where
  "get_next cfg req s =
     (case s_next s of
        Some n \<Rightarrow> (n, s\<lparr>s_next := None\<rparr>)
      | None \<Rightarrow>
          (case map_of (GET req) ''next'' of
             Some n \<Rightarrow> (n, s)
           | None \<Rightarrow>
               (case map_of (POST req) ''next'' of
                  Some n \<Rightarrow> (n, s)
                | None \<Rightarrow>
                    (case LOGIN_REDIRECT_URL cfg of
                       Some n \<Rightarrow> (n, s)
                     | None \<Rightarrow> (''/'', s)))))"

section \<open>Disconnect\<close>

definition disconnect :: "settings \<Rightarrow> request \<Rightarrow> db \<Rightarrow> nat \<Rightarrow> nat \<Rightarrow> nat \<Rightarrow> result" where
  "disconnect cfg req d network object_type obj_id =
     (let s = req_session req in
      case get_content_type d network of
        Inl e \<Rightarrow> raised e d s
      | Inr nct \<Rightarrow>
     (case get_profile_of_target d (ct_class nct) object_type obj_id of
        Inl e \<Rightarrow> raised e d s
      | Inr prof \<Rightarrow>
     (case get_content_type d object_type of
        Inl e \<Rightarrow> raised e d s
      | Inr oct \<Rightarrow>
     (case get_instance d (ct_class oct) obj_id of
        Inl e \<Rightarrow> raised e d s
      | Inr content_object \<Rightarrow>
          if req_method req = ''POST'' then
            returned (Redirect (post_disconnect_redirect_url cfg content_object None))
              (delete_profile prof d) s
          else
            returned (Render ''socialregistration/confirm_disconnect.html''
                        [(''profile'', CProfile prof), (''instance'', CInstance content_object)])
              d s))))"

section \<open>Saving rows\<close>

text \<open>
  \<open>Model.save\<close>: an instance without a primary key is inserted under the next
  key of its table; one with a key replaces its row, or is inserted when the row
  is gone. The saved instance (with its key) is returned with the database.
\<close>

definition same_profile_row :: "profile \<Rightarrow> profile \<Rightarrow> bool" where
  "same_profile_row p q = (provider q = provider p \<and> profile_pk q = profile_pk p)"

definition save_profile :: "profile \<Rightarrow> db \<Rightarrow> profile \<times> db" where
  "save_profile p d =
     (case profile_pk p of
        None \<Rightarrow>
          (let k = next_pk (map profile_pk (filter (\<lambda>q. provider q = provider p) (profiles d)));
               p' = p\<lparr>profile_pk := Some k\<rparr>
           in (p', d\<lparr>profiles := profiles d @ [p']\<rparr>))
      | Some k \<Rightarrow>
          (if list_ex (same_profile_row p) (profiles d)
           then (p, d\<lparr>profiles := map (\<lambda>q. if same_profile_row p q then p else q) (profiles d)\<rparr>)
           else (p, d\<lparr>profiles := profiles d @ [p]\<rparr>)))"

text \<open>\<open>objects.create(...)\<close> builds the instance and saves it.\<close>

definition create_profile ::
  "provider \<Rightarrow> string \<Rightarrow> string \<Rightarrow> string option \<Rightarrow> string \<Rightarrow> model_class \<Rightarrow> nat \<Rightarrow> db \<Rightarrow> profile \<times> db" where
  "create_profile pv rid sn ck cs c k d =
     save_profile \<lparr>profile_pk = None, provider = pv, remote_id = rid, screenname = sn,
                   consumer_key = ck, consumer_secret = cs,
                   content_type = Some c, object_id = Some k\<rparr> d"

text \<open>
  The account table has a unique username: saving a second account under a name
  that another row holds raises IntegrityError.
\<close>

definition save_user :: "user \<Rightarrow> db \<Rightarrow> error + user \<times> db" where
  "save_user u d =
     (if list_ex (\<lambda>v. username v = username u \<and> (user_pk u = None \<or> user_pk v \<noteq> user_pk u)) (users d)
      then Inl IntegrityError
      else
        (case user_pk u of
           None \<Rightarrow>
             (let u' = u\<lparr>user_pk := Some (next_pk (map user_pk (users d)))\<rparr>
              in Inr (u', d\<lparr>users := users d @ [u']\<rparr>))
         | Some k \<Rightarrow>
             (if list_ex (\<lambda>v. user_pk v = Some k) (users d)
              then Inr (u, d\<lparr>users := map (\<lambda>v. if user_pk v = Some k then u else v) (users d)\<rparr>)
              else Inr (u, d\<lparr>users := users d @ [u]\<rparr>))))"

text \<open>\<open>User()\<close>: the unsaved account with the field defaults.\<close>

definition new_User :: user where
  "new_User = \<lparr>user_pk = None, username = [], email = [], password = [], is_active = True\<rparr>"

text \<open>
  The framework's unusable-password sentinel: \<open>set_unusable_password\<close> stores it
  and \<open>has_usable_password\<close>, \<open>check_password\<close> test for it. The hashing of
  passwords is left out: the stored value is compared as it is.
\<close>

definition UNUSABLE_PASSWORD :: string where
  "UNUSABLE_PASSWORD = ''!''"

definition set_unusable_password :: "user \<Rightarrow> user" where
  "set_unusable_password u = u\<lparr>password := UNUSABLE_PASSWORD\<rparr>"

definition has_usable_password :: "user \<Rightarrow> bool" where
  "has_usable_password u = (password u \<noteq> UNUSABLE_PASSWORD)"

definition check_password :: "user \<Rightarrow> string \<Rightarrow> bool" where
  "check_password u raw = (has_usable_password u \<and> password u = raw)"

section \<open>Reading the link target from a query string\<close>

text \<open>
  A primary key arrives as text and is converted as Python's \<open>int\<close> does:
  blanks around it, an optional sign, then decimal digits; anything else raises
  ValueError.
\<close>

definition is_blank :: "char \<Rightarrow> bool" where
  "is_blank c = (c \<in> set [CHR '' '', CHR 0x09, CHR 0x0A, CHR 0x0B, CHR 0x0C, CHR 0x0D])"

definition digit_val :: "char \<Rightarrow> nat option" where
  "digit_val c =
     (let n = (of_char c :: nat)
      in if of_char CHR ''0'' \<le> n \<and> n \<le> of_char CHR ''9''
         then Some (n - of_char CHR ''0'') else None)"

fun parse_digits :: "string \<Rightarrow> nat \<Rightarrow> nat option" where
  "parse_digits [] acc = Some acc"
| "parse_digits (c # cs) acc =
     (case digit_val c of None \<Rightarrow> None | Some v \<Rightarrow> parse_digits cs (10 * acc + v))"

definition strip :: "string \<Rightarrow> string" where
  "strip s = rev (dropWhile is_blank (rev (dropWhile is_blank s)))"

definition parse_int :: "string \<Rightarrow> int option" where
  "parse_int s =
     (case strip s of
        [] \<Rightarrow> None
      | c # cs \<Rightarrow>
          (if c = CHR ''-'' \<or> c = CHR ''+'' then
             (if cs = [] then None
              else (case parse_digits cs 0 of
                      None \<Rightarrow> None
                    | Some n \<Rightarrow> Some (if c = CHR ''-'' then - int n else int n)))
           else map_option int (parse_digits (c # cs) 0)))"

text \<open>
  \<open>get_object\<close>. Its test \<open>'a' and 'm' in info\<close> is Python's
  \<open>'a' and ('m' in info)\<close>, and the string \<open>'a'\<close> is true: the test is
  \<open>'m' in info\<close> alone. A missing \<open>'a'\<close> or \<open>'i'\<close> then raises KeyError.
\<close>

definition get_object :: "db \<Rightarrow> querydict \<Rightarrow> error + model_instance option" where
  "get_object d info =
     (if map_of info ''m'' \<noteq> None then
        (case map_of info ''a'' of
           None \<Rightarrow> Inl KeyError
         | Some a \<Rightarrow>
        (case get_by_natural_key d a (the (map_of info ''m'')) of
           Inl e \<Rightarrow> Inl e
         | Inr c \<Rightarrow>
        (case map_of info ''i'' of
           None \<Rightarrow> Inl KeyError
         | Some i \<Rightarrow>
        (case parse_int i of
           None \<Rightarrow> Inl ValueError
         | Some k \<Rightarrow>
             (if k < 0 then Inl DoesNotExist
              else (case get_instance d (ct_class c) (nat k) of
                      Inl e \<Rightarrow> Inl e
                    | Inr obj \<Rightarrow> Inr (Some obj)))))))
      else Inr None)"

section \<open>Authentication\<close>

text \<open>
  Modelled from the spec: the authentication backends (socialregistration/auth.py)
  and the \<open>authenticate\<close> method of the profile models (models.py) are not among
  the sources. The spec, 4.1: the resolver looks up a ProviderProfile by
  (provider, remote_id) and on a hit returns the bound target, which the caller
  then authenticates. Here the first profile of the provider with the remote id
  decides; its target is returned when it is a local account that exists, and
  \<open>None\<close> otherwise.
\<close>

definition authenticate :: "db \<Rightarrow> provider \<Rightarrow> string \<Rightarrow> user option" where
  "authenticate d pv rid =
     (case filter (\<lambda>p. provider p = pv \<and> remote_id p = rid) (profiles d) of
        [] \<Rightarrow> None
      | p # _ \<Rightarrow>
          (if content_type p = Some UserModel \<and> object_id p \<noteq> None
           then (case filter (\<lambda>u. user_pk u = object_id p) (users d) of
                   [] \<Rightarrow> None
                 | u # _ \<Rightarrow> Some u)
           else None))"

definition flushed :: session where
  "flushed = \<lparr>s_next = None, socialregistration_user = None,
              socialregistration_profile = None,
              socialregistration_connect_object = None, s_disconnect_url = None,
              oauth_api_twitter_com_access_token = None,
              oauth_twitter_com_access_token = None, auth_user_id = None\<rparr>"

text \<open>
  The framework's \<open>login\<close>: a session that belongs to another account is
  flushed, then the account's key is written to the session.
\<close>

definition login :: "session \<Rightarrow> user \<Rightarrow> session" where
  "login s u =
     (let s' = (case auth_user_id s of
                  None \<Rightarrow> s
                | Some k \<Rightarrow> if Some k \<noteq> user_pk u then flushed else s)
      in s'\<lparr>auth_user_id := user_pk u\<rparr>)"

text \<open>
  \<open>_authenticate_login_redirect\<close>. The session is passed apart from the request
  because the caller may have changed it. With no account to log in, the
  framework's \<open>login\<close> fails on the missing backend attribute.
\<close>

definition authenticate_login_redirect :: "settings \<Rightarrow> request \<Rightarrow> db \<Rightarrow> session \<Rightarrow> result" where
  "authenticate_login_redirect cfg req d s =
     (case socialregistration_profile s of
        None \<Rightarrow> raised KeyError d s
      | Some p \<Rightarrow>
          (case authenticate d (provider p) (remote_id p) of
             None \<Rightarrow> raised AttributeError d s
           | Some u \<Rightarrow>
               (let s1 = login s u;
                    s2 = s1\<lparr>socialregistration_user := None\<rparr>;
                    s3 = s2\<lparr>socialregistration_profile := None\<rparr>;
                    (n, s4) = get_next cfg req s3
                in returned (Redirect n) d s4)))"

section \<open>The provider views\<close>

text \<open>
  The rows a profile lookup selects: provider, remote id and content type, and the
  object id where the lookup gives one.
\<close>

definition profiles_where ::
  "db \<Rightarrow> provider \<Rightarrow> string \<Rightarrow> model_class \<Rightarrow> nat option \<Rightarrow> profile list" where
  "profiles_where d pv rid c k =
     filter (\<lambda>p. provider p = pv \<and> remote_id p = rid \<and> content_type p = Some c
                  \<and> (case k of None \<Rightarrow> True | Some n \<Rightarrow> object_id p = Some n))
            (profiles d)"

text \<open>
  The token read from the session in \<open>twitter\<close>: the key of api.twitter.com, then
  the key of twitter.com, then the empty string.
\<close>

definition session_token :: "session \<Rightarrow> (token \<Rightarrow> string option) \<Rightarrow> string" where
  "session_token s field =
     (let fallback = (case oauth_twitter_com_access_token s of
                        None \<Rightarrow> []
                      | Some t \<Rightarrow> (case field t of None \<Rightarrow> [] | Some v \<Rightarrow> v))
      in case oauth_api_twitter_com_access_token s of
           None \<Rightarrow> fallback
         | Some t \<Rightarrow> (case field t of None \<Rightarrow> fallback | Some v \<Rightarrow> v))"

text \<open>The last three lines of \<open>twitter\<close>: one call of \<open>_get_next\<close>, then the redirect.\<close>

definition redirect_next :: "settings \<Rightarrow> request \<Rightarrow> db \<Rightarrow> session \<Rightarrow> result" where
  "redirect_next cfg req d s = (let (n, s') = get_next cfg req s in returned (Redirect n) d s')"

text \<open>
  A log line formats \<open>_get_next(request)\<close> and the redirect calls it again: the
  first call's URL goes to the log, the second call's to the response.
\<close>

definition log_next_then_redirect :: "settings \<Rightarrow> request \<Rightarrow> db \<Rightarrow> session \<Rightarrow> result" where
  "log_next_then_redirect cfg req d s =
     (let (logged, s1) = get_next cfg req s in redirect_next cfg req d s1)"

text \<open>
  The state stored for the setup view when nobody matches the identity:
  the unsaved profile, an unsaved account and the next URL.
\<close>

definition unsaved_profile :: "provider \<Rightarrow> string \<Rightarrow> string \<Rightarrow> string option \<Rightarrow> string \<Rightarrow> profile" where
  "unsaved_profile pv rid sn ck cs =
     \<lparr>profile_pk = None, provider = pv, remote_id = rid, screenname = sn,
      consumer_key = ck, consumer_secret = cs, content_type = None, object_id = None\<rparr>"

definition twitter :: "settings \<Rightarrow> request \<Rightarrow> db \<Rightarrow> string \<Rightarrow> ctx \<Rightarrow> result" where
  "twitter cfg req d account_inactive_template extra_context =
     (let s = req_session req;
          info = user_info req;
          tok = session_token s oauth_token;
          sec = session_token s oauth_token_secret
      in case socialregistration_connect_object s of
           Some (Some obj) \<Rightarrow>
             (case orm_get (profiles_where d Twitter (tw_id info) (inst_class obj) (Some (inst_pk obj))) of
                Inr prof \<Rightarrow>
                  redirect_next cfg req d (s\<lparr>socialregistration_connect_object := None\<rparr>)
              | Inl e \<Rightarrow>
                  if e = DoesNotExist then
                    redirect_next cfg req
                      (snd (create_profile Twitter (tw_id info) (screen_name info) (Some tok) sec
                              (inst_class obj) (inst_pk obj) d))
                      (s\<lparr>socialregistration_connect_object := None\<rparr>)
                  else raised e d s)
         | _ \<Rightarrow>
             (case req_user req of
                Some u \<Rightarrow>
                  (case orm_get (profiles_where d Twitter (tw_id info) UserModel None) of
                     Inr prof \<Rightarrow> log_next_then_redirect cfg req d s
                   | Inl e \<Rightarrow>
                       if e = DoesNotExist then
                         (case user_pk u of
                            None \<Rightarrow> raised IntegrityError d s
                          | Some k \<Rightarrow>
                              log_next_then_redirect cfg req
                                (snd (create_profile Twitter (tw_id info) (screen_name info)
                                        (Some tok) sec UserModel k d)) s)
                       else raised e d s)
              | None \<Rightarrow>
                  (case authenticate d Twitter (tw_id info) of
                     None \<Rightarrow>
                       (let s1 = s\<lparr>socialregistration_profile :=
                                      Some (unsaved_profile Twitter (tw_id info) (screen_name info)
                                              (Some tok) sec)\<rparr>;
                            s2 = s1\<lparr>socialregistration_user := Some new_User\<rparr>;
                            (n, s3) = get_next cfg req s2
                        in returned (Redirect (setup_url cfg)) d (s3\<lparr>s_next := Some n\<rparr>))
                   | Some u \<Rightarrow>
                       if \<not> is_active u then
                         returned (Render account_inactive_template extra_context) d s
                       else redirect_next cfg req d (login s u))))"

definition FB_ERROR :: string where
  "FB_ERROR = ''We couldn't validate your Facebook credentials''"

text \<open>
  \<open>extra_context.update(dict(k=v))\<close>. The views' default \<open>extra_context\<close> is one
  dictionary shared by all calls; here the context is an argument of the view and
  the updated context is part of the response.
\<close>

definition ctx_update :: "ctx \<Rightarrow> string \<Rightarrow> cval \<Rightarrow> ctx" where
  "ctx_update c k v = (if map_of c k = None then c @ [(k, v)]
                       else map (\<lambda>(k', v'). if k' = k then (k', v) else (k', v')) c)"

definition facebook_login :: "settings \<Rightarrow> request \<Rightarrow> db \<Rightarrow> string \<Rightarrow> ctx \<Rightarrow> string \<Rightarrow> result" where
  "facebook_login cfg req d template extra_context account_inactive_template =
     (let s = req_session req in
      case uid (facebook req) of
        None \<Rightarrow>
          returned (Render template (ctx_update extra_context ''error'' (CStr FB_ERROR))) d s
      | Some fb_uid \<Rightarrow>
          (case authenticate d Facebook fb_uid of
             None \<Rightarrow>
               (let s1 = s\<lparr>socialregistration_user := Some new_User\<rparr>;
                    s2 = s1\<lparr>socialregistration_profile :=
                              Some (unsaved_profile Facebook fb_uid [] (Some []) [])\<rparr>;
                    (n, s3) = get_next cfg req s2
                in returned (Redirect (setup_url cfg)) d (s3\<lparr>s_next := Some n\<rparr>))
           | Some u \<Rightarrow>
               if \<not> is_active u then
                 returned (Render account_inactive_template extra_context) d s
               else redirect_next cfg req d (login s u)))"

text \<open>
  In \<open>facebook_connect\<close> a profile that is found gets the new access token in
  \<open>consumer_key\<close> and is saved. The secret is assigned to the attribute
  \<open>secret\<close> of the instance, while the column that \<open>create\<close> fills is
  \<open>consumer_secret\<close>: the save leaves that column as it was. A connect object
  with no Facebook uid cannot be stored, the remote id column being mandatory.
\<close>

definition fb_access_token :: "querydict \<Rightarrow> string option" where
  "fb_access_token fu = map_of fu ''access_token''"

definition fb_secret :: "querydict \<Rightarrow> string" where
  "fb_secret fu = (case map_of fu ''secret'' of None \<Rightarrow> [] | Some v \<Rightarrow> v)"

definition facebook_connect :: "settings \<Rightarrow> request \<Rightarrow> db \<Rightarrow> string \<Rightarrow> ctx \<Rightarrow> result" where
  "facebook_connect cfg req d template extra_context =
     (let s = req_session req in
      case get_object d (GET req) of
        Inl e \<Rightarrow> raised e d s
      | Inr connect_object \<Rightarrow>
          (case (case fb_user (facebook req) of None \<Rightarrow> None
                 | Some fu \<Rightarrow> if fu = [] then None else Some fu) of
             None \<Rightarrow>
               (case map_of (META req) ''HTTP_REFERER'' of
                  Some referer \<Rightarrow> returned (Redirect referer) d s
                | None \<Rightarrow> redirect_next cfg req d s)
           | Some fu \<Rightarrow>
               (case connect_object of
                  Some obj \<Rightarrow>
                    (case uid (facebook req) of
                       None \<Rightarrow> raised IntegrityError d s
                     | Some fb_uid \<Rightarrow>
                         (case orm_get (profiles_where d Facebook fb_uid (inst_class obj) (Some (inst_pk obj))) of
                            Inr prof \<Rightarrow>
                              log_next_then_redirect cfg req
                                (snd (save_profile (prof\<lparr>consumer_key := fb_access_token fu\<rparr>) d)) s
                          | Inl e \<Rightarrow>
                              if e = DoesNotExist then
                                log_next_then_redirect cfg req
                                  (snd (create_profile Facebook fb_uid [] (fb_access_token fu)
                                          (fb_secret fu) (inst_class obj) (inst_pk obj) d)) s
                              else raised e d s))
                | None \<Rightarrow>
                    (case (uid (facebook req), req_user req) of
                       (Some fb_uid, Some u) \<Rightarrow>
                         (case orm_get (profiles_where d Facebook fb_uid UserModel None) of
                            Inr prof \<Rightarrow>
                              log_next_then_redirect cfg req
                                (snd (save_profile (prof\<lparr>consumer_key := fb_access_token fu\<rparr>) d)) s
                          | Inl e \<Rightarrow>
                              if e = DoesNotExist then
                                (case user_pk u of
                                   None \<Rightarrow> raised IntegrityError d s
                                 | Some k \<Rightarrow>
                                     log_next_then_redirect cfg req
                                       (snd (create_profile Facebook fb_uid [] (fb_access_token fu)
                                               (fb_secret fu) UserModel k d)) s)
                              else raised e d s)
                     | _ \<Rightarrow>
                         returned (Render template
                                     (ctx_update extra_context ''error'' (CStr FB_ERROR))) d s))))"

text \<open>
  \<open>openid_callback\<close>. The deployment has one site, so the \<open>site\<close> argument of the
  lookup for the logged-in account selects every row.
\<close>

definition openid_callback :: "settings \<Rightarrow> request \<Rightarrow> db \<Rightarrow> string \<Rightarrow> ctx \<Rightarrow> string \<Rightarrow> result" where
  "openid_callback cfg req d template extra_context account_inactive_template =
     (let s = req_session req in
      case openid_identity req of
        None \<Rightarrow> returned (Render template []) d s
      | Some identity \<Rightarrow>
          (case socialregistration_connect_object s of
             Some (Some obj) \<Rightarrow>
               (case orm_get (profiles_where d OpenID identity (inst_class obj) (Some (inst_pk obj))) of
                  Inr prof \<Rightarrow>
                    redirect_next cfg req d (s\<lparr>socialregistration_connect_object := None\<rparr>)
                | Inl e \<Rightarrow>
                    if e = DoesNotExist then
                      redirect_next cfg req
                        (snd (create_profile OpenID identity [] (Some []) []
                                (inst_class obj) (inst_pk obj) d))
                        (s\<lparr>socialregistration_connect_object := None\<rparr>)
                    else raised e d s)
           | _ \<Rightarrow>
               (case req_user req of
                  Some u \<Rightarrow>
                    (case orm_get (profiles_where d OpenID identity UserModel None) of
                       Inr prof \<Rightarrow> log_next_then_redirect cfg req d s
                     | Inl e \<Rightarrow>
                         if e = DoesNotExist then
                           (case user_pk u of
                              None \<Rightarrow> raised IntegrityError d s
                            | Some k \<Rightarrow>
                                log_next_then_redirect cfg req
                                  (snd (create_profile OpenID identity [] (Some []) [] UserModel k d)) s)
                         else raised e d s)
                | None \<Rightarrow>
                    (case authenticate d OpenID identity of
                       None \<Rightarrow>
                         (let s1 = s\<lparr>socialregistration_user := Some new_User\<rparr>;
                              s2 = s1\<lparr>socialregistration_profile :=
                                        Some (unsaved_profile OpenID identity [] (Some []) [])\<rparr>
                          in returned (Redirect (setup_url cfg)) d s2)
                     | Some u \<Rightarrow>
                         if \<not> is_active u then
                           returned (Render account_inactive_template extra_context) d s
                         else log_next_then_redirect cfg req d (login s u)))))"

section \<open>The setup view\<close>

text \<open>
  What \<open>form.is_valid()\<close> does in the view's \<open>try\<close> block: it returns true or
  false, or the exception ExistingUser escapes from it.
\<close>

datatype form_check = FormValid | FormInvalid | RaisesExistingUser

text \<open>\<open>profile.content_object = user\<close>\<close>

definition bind_to_user :: "profile \<Rightarrow> user \<Rightarrow> profile" where
  "bind_to_user p u = p\<lparr>content_type := Some UserModel, object_id := user_pk u\<rparr>"

text \<open>
  Modelled from the spec: the forms (socialregistration/forms.py: UserForm,
  ClaimForm and the exception ExistingUser) are not among the sources. The spec,
  4.3 and 7: a submitted username that no account holds is available; one that
  collides with an account that has a usable password leads to the password
  claim (the form raises ExistingUser, which the view catches); one that collides
  with an account without a usable password is unavailable and not offered for
  claiming. A form without a username is not valid.
\<close>

definition UserForm_is_valid :: "db \<Rightarrow> querydict \<Rightarrow> form_check" where
  "UserForm_is_valid d post =
     (case map_of post ''username'' of
        None \<Rightarrow> FormInvalid
      | Some n \<Rightarrow>
          (if n = [] then FormInvalid
           else (case filter (\<lambda>u. username u = n) (users d) of
                   [] \<Rightarrow> FormValid
                 | u # _ \<Rightarrow> if has_usable_password u then RaisesExistingUser else FormInvalid)))"

text \<open>
  Modelled from the spec: \<open>UserForm.save\<close> (forms.py). The spec, 4.3 a: create the
  local account under the chosen username and a ProviderProfile bound to it.
\<close>

definition UserForm_save :: "user \<Rightarrow> profile \<Rightarrow> querydict \<Rightarrow> db \<Rightarrow> error + user \<times> profile \<times> db" where
  "UserForm_save social_user social_profile post d =
     (case map_of post ''username'' of
        None \<Rightarrow> Inl KeyError
      | Some n \<Rightarrow>
          (case save_user (social_user\<lparr>username := n\<rparr>) d of
             Inl e \<Rightarrow> Inl e
           | Inr (u, d1) \<Rightarrow>
               (let (p, d2) = save_profile (bind_to_user social_profile u) d1
                in Inr (u, p, d2))))"

text \<open>
  Modelled from the spec: \<open>ClaimForm.is_valid\<close> (forms.py). The spec, 4.3 b: the
  user must authenticate with the real password of the account that holds the
  username. The form is valid exactly when this finds an account; a claim form
  that only shows the submitted data as initial values is not valid.
\<close>

definition claimed_account :: "db \<Rightarrow> form \<Rightarrow> user option" where
  "claimed_account d f =
     (case f of
        ClaimForm_bound post \<Rightarrow>
          (case (map_of post ''username'', map_of post ''password'') of
             (Some n, Some pw) \<Rightarrow>
               (case filter (\<lambda>u. username u = n) (users d) of
                  [] \<Rightarrow> None
                | u # _ \<Rightarrow> if check_password u pw then Some u else None)
           | _ \<Rightarrow> None)
      | _ \<Rightarrow> None)"

text \<open>
  Modelled from the spec: \<open>ClaimForm.save\<close> (forms.py). The spec, 4.3 b: a
  successful claim attaches the ProviderProfile to the claimed account.
\<close>

definition ClaimForm_save :: "profile \<Rightarrow> user \<Rightarrow> db \<Rightarrow> profile \<times> db" where
  "ClaimForm_save social_profile account d = save_profile (bind_to_user social_profile account) d"

text \<open>
  The three parts of \<open>setup\<close> after the session was read. The account and the
  profile of the session are the objects the view changes, so the session holds
  their new values.
\<close>

text \<open>An existing profile of the same class has the remote id: bind to its target.\<close>

definition setup_link_existing :: "settings \<Rightarrow> request \<Rightarrow> db \<Rightarrow> session \<Rightarrow> profile \<Rightarrow> profile \<Rightarrow> result" where
  "setup_link_existing cfg req d s social_profile existing_profile =
     (let (p, d1) = save_profile (social_profile\<lparr>content_type := content_type existing_profile,
                                                object_id := object_id existing_profile\<rparr>) d
      in authenticate_login_redirect cfg req d1 (s\<lparr>socialregistration_profile := Some p\<rparr>))"

text \<open>\<open>GENERATE_USERNAME\<close> is off: the user picks the username.\<close>

definition setup_pick_username ::
  "settings \<Rightarrow> request \<Rightarrow> db \<Rightarrow> session \<Rightarrow> user \<Rightarrow> profile \<Rightarrow> string \<Rightarrow> ctx \<Rightarrow> result" where
  "setup_pick_username cfg req d s social_user social_profile template extra_context =
     (if req_method req \<noteq> ''POST'' then
        returned (Render template (ctx_update extra_context ''form'' (CForm UserForm_unbound))) d s
      else
        (case UserForm_is_valid d (POST req) of
           FormValid \<Rightarrow>
             (case UserForm_save social_user social_profile (POST req) d of
                Inl e \<Rightarrow> raised e d s
              | Inr (u1, p1, d1) \<Rightarrow>
                  (let s1 = s\<lparr>socialregistration_user := Some u1,
                               socialregistration_profile := Some p1\<rparr>
                   in case authenticate d1 (provider p1) (remote_id p1) of
                        None \<Rightarrow> raised AttributeError d1 s1
                      | Some u \<Rightarrow>
                          (case save_user (set_unusable_password u) d1 of
                             Inl e \<Rightarrow> raised e d1 s1
                           | Inr (u2, d2) \<Rightarrow> authenticate_login_redirect cfg req d2 s1)))
         | FormInvalid \<Rightarrow>
             returned (Render template
                         (ctx_update extra_context ''form'' (CForm (UserForm_bound (POST req))))) d s
         | RaisesExistingUser \<Rightarrow>
             (let f = (if map_of (POST req) ''submitted'' \<noteq> None
                       then ClaimForm_bound (POST req) else ClaimForm_initial (POST req))
              in case claimed_account d f of
                   Some account \<Rightarrow>
                     (let (p1, d1) = ClaimForm_save social_profile account d
                      in authenticate_login_redirect cfg req d1
                           (s\<lparr>socialregistration_profile := Some p1\<rparr>))
                 | None \<Rightarrow>
                     returned (Render template
                                 (ctx_update (ctx_update extra_context ''claim_account'' (CBool True))
                                    ''form'' (CForm f))) d s)))"

text \<open>
  \<open>GENERATE_USERNAME\<close> is on. \<open>uuid\<close> is the text of the random UUID the view
  draws; its first 30 characters are the username.
\<close>

definition setup_generate ::
  "settings \<Rightarrow> string \<Rightarrow> request \<Rightarrow> db \<Rightarrow> session \<Rightarrow> user \<Rightarrow> profile \<Rightarrow> result" where
  "setup_generate cfg uuid req d s social_user social_profile =
     (let u0 = social_user\<lparr>username := take 30 uuid\<rparr> in
      case save_user u0 d of
        Inl e \<Rightarrow> raised e d (s\<lparr>socialregistration_user := Some u0\<rparr>)
      | Inr (u1, d1) \<Rightarrow>
          (let u2 = set_unusable_password u1 in
           case save_user u2 d1 of
             Inl e \<Rightarrow> raised e d1 (s\<lparr>socialregistration_user := Some u2\<rparr>)
           | Inr (u3, d2) \<Rightarrow>
               (let (p1, d3) = save_profile (bind_to_user social_profile u3) d2
                in authenticate_login_redirect cfg req d3
                     (s\<lparr>socialregistration_user := Some u3,
                        socialregistration_profile := Some p1\<rparr>))))"

text \<open>The view \<open>setup\<close>.\<close>

definition setup_view :: "settings \<Rightarrow> string \<Rightarrow> request \<Rightarrow> db \<Rightarrow> string \<Rightarrow> ctx \<Rightarrow> result" where
  "setup_view cfg uuid req d template extra_context =
     (let s = req_session req in
      case (socialregistration_user s, socialregistration_profile s) of
        (Some social_user, Some social_profile) \<Rightarrow>
          (case filter (\<lambda>p. provider p = provider social_profile
                             \<and> remote_id p = remote_id social_profile) (profiles d) of
             existing_profile # _ \<Rightarrow>
               setup_link_existing cfg req d s social_profile existing_profile
           | [] \<Rightarrow>
               if \<not> GENERATE_USERNAME cfg then
                 setup_pick_username cfg req d s social_user social_profile template extra_context
               else setup_generate cfg uuid req d s social_user social_profile)
      | _ \<Rightarrow> returned (Render template [(''error'', CBool True)]) d s)"

section \<open>Example data\<close>

definition example_settings :: settings where
  "example_settings =
     \<lparr>GENERATE_USERNAME = False, LOGIN_REDIRECT_URL = Some ''/accounts/profile/'',
      SOCIALREGISTRATION_DISCONNECT_URL = Some ''/default/'', setup_url = ''/social/setup/''\<rparr>"

definition example_content_types :: "content_type_row list" where
  "example_content_types =
     [\<lparr>ct_pk = 1, app_label = ''auth'', model = ''user'', ct_class = UserModel\<rparr>,
      \<lparr>ct_pk = 2, app_label = ''socialregistration'', model = ''twitterprofile'',
       ct_class = ProfileModel Twitter\<rparr>,
      \<lparr>ct_pk = 3, app_label = ''blog'', model = ''article'', ct_class = DomainModel ''Article''\<rparr>]"

definition alice :: user where
  "alice = \<lparr>user_pk = Some 1, username = ''alice'', email = [], password = ''pw'', is_active = True\<rparr>"

definition article42 :: model_instance where
  "article42 = \<lparr>inst_class = DomainModel ''Article'', inst_pk = 42, absolute_url = None\<rparr>"

definition example_profile :: "provider \<Rightarrow> string \<Rightarrow> model_class \<Rightarrow> nat \<Rightarrow> profile" where
  "example_profile pv rid c k =
     \<lparr>profile_pk = Some 1, provider = pv, remote_id = rid, screenname = ''al'',
      consumer_key = Some ''old'', consumer_secret = ''oldsecret'',
      content_type = Some c, object_id = Some k\<rparr>"

definition example_db :: "profile list \<Rightarrow> db" where
  "example_db ps = \<lparr>users = [alice], profiles = ps, objects = [article42],
                    content_types = example_content_types\<rparr>"

definition example_request :: "string \<Rightarrow> user option \<Rightarrow> session \<Rightarrow> request" where
  "example_request m u s =
     \<lparr>req_method = m, GET = [], POST = [], META = [], req_user = u,
      facebook = \<lparr>uid = None, fb_user = None\<rparr>,
      user_info = \<lparr>tw_id = ''7'', screen_name = ''al''\<rparr>,
      openid_identity = None, req_session = s\<rparr>"

definition example_pending :: session where
  "example_pending =
     flushed\<lparr>socialregistration_user := Some new_User,
              socialregistration_profile :=
                Some (unsaved_profile Twitter ''7'' ''al'' (Some ''tok'') ''sec'')\<rparr>"

definition example_connect :: session where
  "example_connect = flushed\<lparr>socialregistration_connect_object := Some (Some article42)\<rparr>"

definition example_fb_request :: request where
  "example_fb_request =
     (example_request ''GET'' (Some alice) flushed)
       \<lparr>facebook := \<lparr>uid = Some ''fb1'',
                      fb_user = Some [(''access_token'', ''new''), (''secret'', ''newsecret'')]\<rparr>\<rparr>"

definition example_tw_request :: request where
  "example_tw_request =
     example_request ''GET'' (Some alice)
       (flushed\<lparr>oauth_api_twitter_com_access_token :=
                  Some \<lparr>oauth_token = Some ''new'', oauth_token_secret = Some ''newsecret''\<rparr>\<rparr>)"

definition example_post_request :: request where
  "example_post_request =
     (example_request ''POST'' None example_pending)\<lparr>POST := [(''username'', ''bob'')]\<rparr>"

section \<open>Auxiliary facts\<close>

lemma orm_get_cases:
  "orm_get rows = Inl DoesNotExist \<longleftrightarrow> rows = []"
  "orm_get rows = Inr r \<longleftrightarrow> rows = [r]"
  "orm_get rows = Inl MultipleObjectsReturned \<longleftrightarrow> 2 \<le> length rows"
  by (auto simp: orm_get_def split: list.splits)

lemma log_next_then_redirect_session_next:
  "s_next s = Some n \<Longrightarrow> map_of (GET req) ''next'' = None \<Longrightarrow> map_of (POST req) ''next'' = None \<Longrightarrow>
   log_next_then_redirect cfg req d s
     = returned (Redirect (case LOGIN_REDIRECT_URL cfg of Some u \<Rightarrow> u | None \<Rightarrow> ''/'')) d
         (s\<lparr>s_next := None\<rparr>)"
  by (simp add: log_next_then_redirect_def redirect_next_def get_next_def split: option.splits)

section \<open>Disconnect\<close>

text \<open>
  Claim C5. A disconnect request that is not a POST deletes nothing: the database
  is the one the request found, whatever the lookups do; and when the four lookups
  of the view succeed, the response is the confirmation page showing the profile
  and the object. So a profile is deleted only by the confirming POST.
\<close>

theorem disconnect_deletes_only_on_post:
  assumes "req_method req \<noteq> ''POST''"
  shows "db_after (disconnect cfg req d network object_type obj_id) = d
    \<and> (get_content_type d network = Inr nct \<longrightarrow>
       get_profile_of_target d (ct_class nct) object_type obj_id = Inr prof \<longrightarrow>
       get_content_type d object_type = Inr oct \<longrightarrow>
       get_instance d (ct_class oct) obj_id = Inr content_object \<longrightarrow>
       outcome (disconnect cfg req d network object_type obj_id)
         = Inr (Render ''socialregistration/confirm_disconnect.html''
                  [(''profile'', CProfile prof), (''instance'', CInstance content_object)]))"
  using assms
  by (simp add: disconnect_def Let_def raised_def returned_def split: sum.splits)

theorem disconnect_deletes_only_on_post_witness:
  "db_after (disconnect example_settings (example_request ''GET'' None flushed)
       (example_db [example_profile Twitter ''7'' (DomainModel ''Article'') 42]) 2 3 42)
     = example_db [example_profile Twitter ''7'' (DomainModel ''Article'') 42]
   \<and> outcome (disconnect example_settings (example_request ''GET'' None flushed)
       (example_db [example_profile Twitter ''7'' (DomainModel ''Article'') 42]) 2 3 42)
     = Inr (Render ''socialregistration/confirm_disconnect.html''
              [(''profile'', CProfile (example_profile Twitter ''7'' (DomainModel ''Article'') 42)),
               (''instance'', CInstance article42)])"
  using disconnect_deletes_only_on_post [of "example_request ''GET'' None flushed"
      example_settings "example_db [example_profile Twitter ''7'' (DomainModel ''Article'') 42]"
      2 3 42 "example_content_types ! 1" "example_profile Twitter ''7'' (DomainModel ''Article'') 42"
      "example_content_types ! 2" article42]
  by (simp add: example_request_def example_db_def example_content_types_def get_content_type_def
        orm_get_def get_profile_of_target_def example_profile_def get_instance_def article42_def)

text \<open>
  Claim C6. \<open>post_disconnect_redirect_url\<close> reads the session only when it is
  given the request, and \<open>disconnect\<close> calls it with the object alone. For an
  object without a canonical location and a session that stores the override
  \<open>/bye/\<close>, the confirmed disconnect redirects to the configured default
  \<open>/default/\<close>; the same function given the request returns \<open>/bye/\<close>.
\<close>

theorem disconnect_ignores_session_url:
  "disconnect example_settings
     (example_request ''POST'' None (flushed\<lparr>s_disconnect_url := Some ''/bye/''\<rparr>))
     (example_db [example_profile Twitter ''7'' (DomainModel ''Article'') 42]) 2 3 42
   = returned (Redirect ''/default/'') (example_db [])
       (flushed\<lparr>s_disconnect_url := Some ''/bye/''\<rparr>)
   \<and> post_disconnect_redirect_url example_settings article42
       (Some (example_request ''POST'' None (flushed\<lparr>s_disconnect_url := Some ''/bye/''\<rparr>)))
     = ''/bye/''"
  by (simp add: disconnect_def example_request_def example_db_def example_content_types_def
        get_content_type_def orm_get_def get_profile_of_target_def example_profile_def
        get_instance_def article42_def post_disconnect_redirect_url_def example_settings_def
        delete_profile_def returned_def flushed_def)

section \<open>The next URL\<close>

text \<open>
  Claim C10. With a next URL in the session and none in GET or POST, the first
  call of \<open>_get_next\<close> returns the session's URL and deletes the key, and a second
  call on the session it left returns \<open>LOGIN_REDIRECT_URL\<close>, or \<open>/\<close> when that
  setting is missing. In \<open>twitter\<close>, for a logged-in user and no connect object,
  the log line makes the first call, so the redirect goes to that default.
\<close>

theorem twitter_connect_redirects_to_default:
  assumes nxt: "s_next (req_session req) = Some n"
    and g: "map_of (GET req) ''next'' = None" and p: "map_of (POST req) ''next'' = None"
    and co: "socialregistration_connect_object (req_session req) = None
           \<or> socialregistration_connect_object (req_session req) = Some None"
    and u: "req_user req = Some u" "user_pk u = Some k"
    and one: "length (profiles_where d Twitter (tw_id (user_info req)) UserModel None) \<le> 1"
  shows "get_next cfg req (req_session req) = (n, (req_session req)\<lparr>s_next := None\<rparr>)
    \<and> fst (get_next cfg req (snd (get_next cfg req (req_session req))))
           = (case LOGIN_REDIRECT_URL cfg of Some u \<Rightarrow> u | None \<Rightarrow> ''/'')
    \<and> outcome (twitter cfg req d account_inactive_template extra_context)
           = Inr (Redirect (case LOGIN_REDIRECT_URL cfg of Some u \<Rightarrow> u | None \<Rightarrow> ''/''))"
proof -
  have a: "get_next cfg req (req_session req) = (n, (req_session req)\<lparr>s_next := None\<rparr>)"
    using nxt by (simp add: get_next_def)
  have b: "fst (get_next cfg req (snd (get_next cfg req (req_session req))))
           = (case LOGIN_REDIRECT_URL cfg of Some u \<Rightarrow> u | None \<Rightarrow> ''/'')"
    using g p by (simp add: a) (simp add: get_next_def split: option.splits)
  have c: "outcome (twitter cfg req d account_inactive_template extra_context)
           = Inr (Redirect (case LOGIN_REDIRECT_URL cfg of Some u \<Rightarrow> u | None \<Rightarrow> ''/''))"
  proof (cases "profiles_where d Twitter (tw_id (user_info req)) UserModel None")
    case Nil
    then show ?thesis
      using co u nxt g p
      by (auto simp: twitter_def Let_def orm_get_def log_next_then_redirect_session_next returned_def)
  next
    case (Cons x xs)
    with one have "xs = []" by simp
    with Cons show ?thesis
      using co u nxt g p
      by (auto simp: twitter_def Let_def orm_get_def log_next_then_redirect_session_next returned_def)
  qed
  from a b c show ?thesis by blast
qed

theorem twitter_connect_redirects_to_default_witness:
  "get_next example_settings
     (example_request ''GET'' (Some alice) (flushed\<lparr>s_next := Some ''/wanted/''\<rparr>))
     (flushed\<lparr>s_next := Some ''/wanted/''\<rparr>) = (''/wanted/'', flushed)
   \<and> outcome (twitter example_settings
        (example_request ''GET'' (Some alice) (flushed\<lparr>s_next := Some ''/wanted/''\<rparr>))
        (example_db []) ''inactive.html'' [])
      = Inr (Redirect ''/accounts/profile/'')"
  using twitter_connect_redirects_to_default [of
      "example_request ''GET'' (Some alice) (flushed\<lparr>s_next := Some ''/wanted/''\<rparr>)"
      "''/wanted/''" alice 1 "example_db []" example_settings "''inactive.html''" "[]"]
  by (simp add: example_request_def flushed_def alice_def example_db_def profiles_where_def
        example_settings_def)

section \<open>Missing credentials and missing session state\<close>

text \<open>
  Claim C8, as the code has it. When the Facebook uid is absent (\<open>None\<close>),
  \<open>facebook_login\<close> renders its template again with the error notice and leaves
  the database and the session as they were: no pending registration is stored and
  there is no redirect to the setup view.
\<close>

theorem facebook_login_without_uid:
  "uid (facebook req) = None \<Longrightarrow>
   facebook_login cfg req d template extra_context account_inactive_template
     = returned (Render template (ctx_update extra_context ''error'' (CStr FB_ERROR))) d (req_session req)"
  by (simp add: facebook_login_def)

theorem facebook_login_without_uid_witness:
  "facebook_login example_settings (example_request ''GET'' None flushed) (example_db [])
     ''facebook.html'' [] ''inactive.html''
   = returned (Render ''facebook.html'' [(''error'', CStr FB_ERROR)]) (example_db []) flushed"
  using facebook_login_without_uid [of "example_request ''GET'' None flushed" example_settings
      "example_db []" "''facebook.html''" "[]" "''inactive.html''"]
  by (simp add: example_request_def ctx_update_def)

text \<open>
  An empty uid is not absent: the view tests \<open>is None\<close> only. With the empty
  string as uid and no profile, it stores the pending registration and redirects
  to the setup view.
\<close>

theorem facebook_login_empty_uid_counterexample:
  "facebook_login example_settings
     ((example_request ''GET'' None flushed)\<lparr>facebook := \<lparr>uid = Some [], fb_user = None\<rparr>\<rparr>)
     (example_db []) ''facebook.html'' [] ''inactive.html''
   = returned (Redirect ''/social/setup/'') (example_db [])
       (flushed\<lparr>s_next := Some ''/accounts/profile/'',
                 socialregistration_user := Some new_User,
                 socialregistration_profile := Some (unsaved_profile Facebook [] [] (Some []) [])\<rparr>)"
  by (simp add: facebook_login_def example_request_def example_db_def authenticate_def
        get_next_def flushed_def example_settings_def)

text \<open>
  Claim C9. When the session lacks the pending account or the pending profile,
  the setup view returns its template with the context \<open>error = True\<close> and nothing
  else; the database and the session are untouched, and no exception escapes.
\<close>

theorem setup_without_pending_state:
  "socialregistration_user (req_session req) = None
     \<or> socialregistration_profile (req_session req) = None \<Longrightarrow>
   setup_view cfg uuid req d template extra_context
     = returned (Render template [(''error'', CBool True)]) d (req_session req)"
  by (auto simp: setup_view_def Let_def split: option.splits)

theorem setup_without_pending_state_witness:
  "setup_view example_settings ''u'' (example_request ''GET'' None flushed) (example_db []) ''t.html'' []
     = returned (Render ''t.html'' [(''error'', CBool True)]) (example_db []) flushed"
  using setup_without_pending_state [of "example_request ''GET'' None flushed" example_settings
      "''u''" "example_db []" "''t.html''" "[]"]
  by (simp add: example_request_def flushed_def)

section \<open>Pending registrations and logins\<close>

lemma get_next_keeps_pending:
  "socialregistration_user (snd (get_next cfg req s)) = socialregistration_user s"
  "socialregistration_profile (snd (get_next cfg req s)) = socialregistration_profile s"
  "socialregistration_connect_object (snd (get_next cfg req s)) = socialregistration_connect_object s"
  "auth_user_id (snd (get_next cfg req s)) = auth_user_id s"
  by (simp_all add: get_next_def split: option.splits)

lemma authenticate_login_redirect_clears:
  assumes "outcome (authenticate_login_redirect cfg req d s) = Inr resp"
  shows "socialregistration_user (session_after (authenticate_login_redirect cfg req d s)) = None
       \<and> socialregistration_profile (session_after (authenticate_login_redirect cfg req d s)) = None"
proof (cases "socialregistration_profile s")
  case None
  with assms show ?thesis by (simp add: authenticate_login_redirect_def raised_def)
next
  case (Some p)
  show ?thesis
  proof (cases "authenticate d (provider p) (remote_id p)")
    case None
    with Some assms show ?thesis by (simp add: authenticate_login_redirect_def raised_def)
  next
    case (Some u)
    obtain n s4 where g: "get_next cfg req
        (login s u\<lparr>socialregistration_user := None, socialregistration_profile := None\<rparr>) = (n, s4)"
      by (cases "get_next cfg req
        (login s u\<lparr>socialregistration_user := None, socialregistration_profile := None\<rparr>)") auto
    have "socialregistration_user s4 = None \<and> socialregistration_profile s4 = None"
      using get_next_keeps_pending(1,2) [of cfg req
          "login s u\<lparr>socialregistration_user := None, socialregistration_profile := None\<rparr>"] g
      by simp
    with \<open>socialregistration_profile s = Some p\<close> Some g show ?thesis
      by (simp add: authenticate_login_redirect_def returned_def Let_def)
  qed
qed

lemma authenticate_login_redirect_outcome:
  "outcome (authenticate_login_redirect cfg req d s) = Inr resp \<Longrightarrow> \<exists>n. resp = Redirect n"
  by (auto simp: authenticate_login_redirect_def raised_def returned_def Let_def
      split: option.splits prod.splits)



lemma setup_link_existing_clears:
  "outcome (setup_link_existing cfg req d s sp ep) = Inr resp \<Longrightarrow>
   socialregistration_user (session_after (setup_link_existing cfg req d s sp ep)) = None
   \<and> socialregistration_profile (session_after (setup_link_existing cfg req d s sp ep)) = None"
  by (cases "save_profile (sp\<lparr>content_type := content_type ep, object_id := object_id ep\<rparr>) d")
     (simp add: setup_link_existing_def authenticate_login_redirect_clears)

lemma setup_generate_clears:
  assumes "outcome (setup_generate cfg uuid req d s su sp) = Inr resp"
  shows "socialregistration_user (session_after (setup_generate cfg uuid req d s su sp)) = None
   \<and> socialregistration_profile (session_after (setup_generate cfg uuid req d s su sp)) = None"
proof (cases "save_user (su\<lparr>username := take 30 uuid\<rparr>) d")
  case (Inl e)
  with assms show ?thesis by (simp add: setup_generate_def Let_def raised_def)
next
  case (Inr a)
  obtain u1 d1 where a: "a = (u1, d1)" by (cases a)
  show ?thesis
  proof (cases "save_user (set_unusable_password u1) d1")
    case (Inl e)
    with Inr a assms show ?thesis by (simp add: setup_generate_def Let_def raised_def)
  next
    case (Inr b)
    obtain u3 d2 where b: "b = (u3, d2)" by (cases b)
    obtain p1 d3 where c: "save_profile (bind_to_user sp u3) d2 = (p1, d3)"
      by (cases "save_profile (bind_to_user sp u3) d2")
    from \<open>save_user (su\<lparr>username := take 30 uuid\<rparr>) d = Inr a\<close> a Inr b c assms show ?thesis
      by (simp add: setup_generate_def Let_def authenticate_login_redirect_clears)
  qed
qed

lemma setup_pick_username_clears:
  assumes "outcome (setup_pick_username cfg req d s su sp t c) = Inr (Redirect n)"
  shows "socialregistration_user (session_after (setup_pick_username cfg req d s su sp t c)) = None
   \<and> socialregistration_profile (session_after (setup_pick_username cfg req d s su sp t c)) = None"
proof (cases "req_method req = ''POST''")
  case False
  with assms show ?thesis by (simp add: setup_pick_username_def returned_def)
next
  case True
  show ?thesis
  proof (cases "UserForm_is_valid d (POST req)")
    case FormInvalid
    with True assms show ?thesis by (simp add: setup_pick_username_def returned_def)
  next
    case RaisesExistingUser
    let ?f = "if map_of (POST req) ''submitted'' \<noteq> None
                       then ClaimForm_bound (POST req) else ClaimForm_initial (POST req)"
    show ?thesis
    proof (cases "claimed_account d ?f")
      case None
      with True RaisesExistingUser assms show ?thesis
        by (simp add: setup_pick_username_def returned_def Let_def)
    next
      case (Some account)
      obtain p1 d1 where c: "ClaimForm_save sp account d = (p1, d1)"
        by (cases "ClaimForm_save sp account d")
      with True RaisesExistingUser Some assms show ?thesis
        by (simp add: setup_pick_username_def Let_def authenticate_login_redirect_clears)
    qed
  next
    case FormValid
    show ?thesis
    proof (cases "UserForm_save su sp (POST req) d")
      case (Inl e)
      with True FormValid assms show ?thesis by (simp add: setup_pick_username_def raised_def)
    next
      case (Inr a)
      obtain u1 p1 d1 where a: "a = (u1, p1, d1)" by (cases a)
      show ?thesis
      proof (cases "authenticate d1 (provider p1) (remote_id p1)")
        case None
        with True FormValid Inr a assms show ?thesis
          by (simp add: setup_pick_username_def Let_def raised_def)
      next
        case (Some u)
        show ?thesis
        proof (cases "save_user (set_unusable_password u) d1")
          case (Inl e)
          with True FormValid \<open>UserForm_save su sp (POST req) d = Inr a\<close> a Some assms
          show ?thesis by (simp add: setup_pick_username_def Let_def raised_def)
        next
          case (Inr b)
          obtain u2 d2 where b: "b = (u2, d2)" by (cases b)
          with True FormValid \<open>UserForm_save su sp (POST req) d = Inr a\<close> a Some Inr assms
          show ?thesis
            by (simp add: setup_pick_username_def Let_def authenticate_login_redirect_clears)
        qed
      qed
    qed
  qed
qed

lemma setup_view_clears:
  assumes "outcome (setup_view cfg uuid req d t c) = Inr (Redirect n)"
  shows "socialregistration_user (session_after (setup_view cfg uuid req d t c)) = None
   \<and> socialregistration_profile (session_after (setup_view cfg uuid req d t c)) = None"
proof (cases "socialregistration_user (req_session req)")
  case None
  with assms show ?thesis by (simp add: setup_view_def Let_def returned_def)
next
  case su: (Some su)
  show ?thesis
  proof (cases "socialregistration_profile (req_session req)")
    case None
    with su assms show ?thesis by (simp add: setup_view_def Let_def returned_def)
  next
    case sp: (Some sp)
    show ?thesis
    proof (cases "filter (\<lambda>p. provider p = provider sp \<and> remote_id p = remote_id sp) (profiles d)")
      case (Cons ep rest)
      with su sp assms show ?thesis
        using setup_link_existing_clears [of cfg req d "req_session req" sp ep "Redirect n"]
        by (simp add: setup_view_def Let_def)
    next
      case Nil
      with su sp assms show ?thesis
        using setup_generate_clears [of cfg uuid req d "req_session req" su sp "Redirect n"]
          setup_pick_username_clears [of cfg req d "req_session req" su sp t c n]
        by (simp add: setup_view_def Let_def split: if_splits)
    qed
  qed
qed


lemma facebook_login_direct_match:
  assumes "uid (facebook req) = Some x" and "authenticate d Facebook x = Some u"
    and "is_active u" and "auth_user_id (req_session req) = None"
  shows "outcome (facebook_login cfg req d t c it) = Inr (Redirect (fst (get_next cfg req (req_session req))))
    \<and> socialregistration_user (session_after (facebook_login cfg req d t c it))
        = socialregistration_user (req_session req)
    \<and> socialregistration_profile (session_after (facebook_login cfg req d t c it))
        = socialregistration_profile (req_session req)"
  using assms
  by (simp add: facebook_login_def redirect_next_def login_def returned_def get_next_def Let_def
      split: option.splits)

text \<open>
  Claim C4, as the code has it. Every login that \<open>_authenticate_login_redirect\<close>
  completes leaves the session without the pending account and the pending profile,
  and every redirect the setup view answers with is such a login. A login that
  matches an existing profile directly in \<open>facebook_login\<close> does not touch the two
  session keys: in a session that no account owned, they are after the login what
  they were before it.
\<close>

theorem pending_state_cleared_by_setup_login:
  "(outcome (authenticate_login_redirect cfg req d s) = Inr resp \<longrightarrow>
      socialregistration_user (session_after (authenticate_login_redirect cfg req d s)) = None
      \<and> socialregistration_profile (session_after (authenticate_login_redirect cfg req d s)) = None)
   \<and> (outcome (setup_view cfg uuid req d template extra_context) = Inr (Redirect n) \<longrightarrow>
      socialregistration_user (session_after (setup_view cfg uuid req d template extra_context)) = None
      \<and> socialregistration_profile (session_after (setup_view cfg uuid req d template extra_context)) = None)
   \<and> (uid (facebook req) = Some x \<longrightarrow> authenticate d Facebook x = Some u \<longrightarrow> is_active u \<longrightarrow>
      auth_user_id (req_session req) = None \<longrightarrow>
      outcome (facebook_login cfg req d template extra_context account_inactive_template)
        = Inr (Redirect (fst (get_next cfg req (req_session req))))
      \<and> socialregistration_user
          (session_after (facebook_login cfg req d template extra_context account_inactive_template))
        = socialregistration_user (req_session req)
      \<and> socialregistration_profile
          (session_after (facebook_login cfg req d template extra_context account_inactive_template))
        = socialregistration_profile (req_session req))"
  using authenticate_login_redirect_clears [of cfg req d s resp]
    setup_view_clears [of cfg uuid req d template extra_context n]
    facebook_login_direct_match [of req x d u cfg template extra_context account_inactive_template]
  by blast

lemmas example_defs =
  example_pending_def flushed_def example_request_def
       example_db_def example_settings_def new_User_def unsaved_profile_def alice_def
       example_profile_def article42_def example_content_types_def

lemmas model_defs =
       save_user_def save_profile_def next_pk_def set_unusable_password_def UNUSABLE_PASSWORD_def
       bind_to_user_def authenticate_login_redirect_def authenticate_def login_def get_next_def
       returned_def raised_def Let_def

theorem pending_state_cleared_by_setup_login_witness:
  "socialregistration_user (session_after
      (authenticate_login_redirect example_settings (example_request ''GET'' None example_pending)
         (example_db [example_profile Twitter ''7'' UserModel 1]) example_pending)) = None
   \<and> socialregistration_profile (session_after
      (setup_view (example_settings\<lparr>GENERATE_USERNAME := True\<rparr>)
         ''123e4567-e89b-12d3-a456-426614174000''
         (example_request ''GET'' None example_pending) (example_db []) ''setup.html'' [])) = None
   \<and> socialregistration_profile (session_after
      (facebook_login example_settings
         ((example_request ''GET'' None example_pending)\<lparr>facebook := \<lparr>uid = Some ''fb1'', fb_user = None\<rparr>\<rparr>)
         (example_db [example_profile Facebook ''fb1'' UserModel 1])
         ''facebook.html'' [] ''inactive.html''))
     = Some (unsaved_profile Twitter ''7'' ''al'' (Some ''tok'') ''sec'')"
proof -
  have a: "outcome (authenticate_login_redirect example_settings
             (example_request ''GET'' None example_pending)
             (example_db [example_profile Twitter ''7'' UserModel 1]) example_pending)
           = Inr (Redirect ''/accounts/profile/'')"
    by (simp add: example_defs model_defs)
  have b: "outcome (setup_view (example_settings\<lparr>GENERATE_USERNAME := True\<rparr>)
             ''123e4567-e89b-12d3-a456-426614174000''
             (example_request ''GET'' None example_pending) (example_db []) ''setup.html'' [])
           = Inr (Redirect ''/accounts/profile/'')"
    by (simp add: setup_view_def setup_generate_def example_defs model_defs)
  have c: "uid (facebook ((example_request ''GET'' None example_pending)
               \<lparr>facebook := \<lparr>uid = Some ''fb1'', fb_user = None\<rparr>\<rparr>)) = Some ''fb1''"
    "authenticate (example_db [example_profile Facebook ''fb1'' UserModel 1]) Facebook ''fb1'' = Some alice"
    "is_active alice"
    "auth_user_id (req_session ((example_request ''GET'' None example_pending)
               \<lparr>facebook := \<lparr>uid = Some ''fb1'', fb_user = None\<rparr>\<rparr>)) = None"
    by (simp_all add: example_defs model_defs)
  have d: "socialregistration_profile (req_session ((example_request ''GET'' None example_pending)
               \<lparr>facebook := \<lparr>uid = Some ''fb1'', fb_user = None\<rparr>\<rparr>))
           = Some (unsaved_profile Twitter ''7'' ''al'' (Some ''tok'') ''sec'')"
    by (simp add: example_defs)
  show ?thesis
    using pending_state_cleared_by_setup_login [where cfg = example_settings
        and req = "example_request ''GET'' None example_pending"
        and d = "example_db [example_profile Twitter ''7'' UserModel 1]" and s = example_pending
        and resp = "Redirect ''/accounts/profile/''"]
      pending_state_cleared_by_setup_login [where cfg = "example_settings\<lparr>GENERATE_USERNAME := True\<rparr>"
        and req = "example_request ''GET'' None example_pending" and d = "example_db []"
        and uuid = "''123e4567-e89b-12d3-a456-426614174000''" and template = "''setup.html''"
        and extra_context = "[]" and n = "''/accounts/profile/''"]
      pending_state_cleared_by_setup_login [where cfg = example_settings
        and req = "(example_request ''GET'' None example_pending)\<lparr>facebook := \<lparr>uid = Some ''fb1'', fb_user = None\<rparr>\<rparr>"
        and d = "example_db [example_profile Facebook ''fb1'' UserModel 1]"
        and template = "''facebook.html''" and extra_context = "[]"
        and x = "''fb1''" and u = alice and account_inactive_template = "''inactive.html''"]
      a b c d
    by metis
qed

text \<open>
  A session still holds the pending registration of an abandoned Twitter setup;
  the Facebook uid of the request matches a profile of an active account. The view
  logs the account in and redirects, and the pending registration is still in the
  session.
\<close>

theorem facebook_login_keeps_pending_state_counterexample:
  "outcome (facebook_login example_settings
         ((example_request ''GET'' None example_pending)\<lparr>facebook := \<lparr>uid = Some ''fb1'', fb_user = None\<rparr>\<rparr>)
         (example_db [example_profile Facebook ''fb1'' UserModel 1])
         ''facebook.html'' [] ''inactive.html'') = Inr (Redirect ''/accounts/profile/'')
   \<and> session_after (facebook_login example_settings
         ((example_request ''GET'' None example_pending)\<lparr>facebook := \<lparr>uid = Some ''fb1'', fb_user = None\<rparr>\<rparr>)
         (example_db [example_profile Facebook ''fb1'' UserModel 1])
         ''facebook.html'' [] ''inactive.html'')
     = example_pending\<lparr>auth_user_id := Some 1\<rparr>
   \<and> socialregistration_user (example_pending\<lparr>auth_user_id := Some 1\<rparr>) = Some new_User
   \<and> socialregistration_profile (example_pending\<lparr>auth_user_id := Some 1\<rparr>)
       = Some (unsaved_profile Twitter ''7'' ''al'' (Some ''tok'') ''sec'')"
  by (simp add: facebook_login_def redirect_next_def example_defs model_defs)

section \<open>Linking to a connect object\<close>

lemma redirect_next_fields:
  "outcome (redirect_next cfg req d s) = Inr (Redirect (fst (get_next cfg req s)))"
  "db_after (redirect_next cfg req d s) = d"
  "session_after (redirect_next cfg req d s) = snd (get_next cfg req s)"
  by (simp_all add: redirect_next_def returned_def split: prod.splits)

lemma get_next_ignores_user:
  "get_next cfg (req\<lparr>req_user := v\<rparr>) s = get_next cfg req s"
  by (simp add: get_next_def split: option.splits)

lemma redirect_next_ignores_user:
  "redirect_next cfg (req\<lparr>req_user := v\<rparr>) d s = redirect_next cfg req d s"
  by (simp add: redirect_next_def get_next_ignores_user)

lemma create_profile_appends:
  "snd (create_profile pv rid sn ck cs c k d)
     = d\<lparr>profiles := profiles d @
          [\<lparr>profile_pk = Some (next_pk (map profile_pk (filter (\<lambda>q. provider q = pv) (profiles d)))),
            provider = pv, remote_id = rid, screenname = sn, consumer_key = ck,
            consumer_secret = cs, content_type = Some c, object_id = Some k\<rparr>]\<rparr>"
  by (simp add: create_profile_def save_profile_def Let_def)

lemma profiles_where_member:
  "p \<in> set (profiles_where d pv rid c (Some k)) \<longleftrightarrow>
     p \<in> set (profiles d) \<and> provider p = pv \<and> remote_id p = rid
     \<and> content_type p = Some c \<and> object_id p = Some k"
  by (auto simp: profiles_where_def)

lemma twitter_connect_object:
  assumes co: "socialregistration_connect_object (req_session req) = Some (Some obj)"
  shows "twitter cfg (req\<lparr>req_user := v\<rparr>) d t c = twitter cfg req d t c"
    and "case outcome (twitter cfg req d t c) of
           Inl e \<Rightarrow> e = MultipleObjectsReturned \<and> db_after (twitter cfg req d t c) = d
         | Inr resp \<Rightarrow>
             (\<exists>n. resp = Redirect n)
             \<and> socialregistration_connect_object (session_after (twitter cfg req d t c)) = None
             \<and> users (db_after (twitter cfg req d t c)) = users d
             \<and> (\<exists>p. p \<in> set (profiles (db_after (twitter cfg req d t c)))
                    \<and> provider p = Twitter \<and> remote_id p = tw_id (user_info req)
                    \<and> content_type p = Some (inst_class obj) \<and> object_id p = Some (inst_pk obj)
                    \<and> (profiles (db_after (twitter cfg req d t c)) = profiles d
                         \<or> profiles (db_after (twitter cfg req d t c)) = profiles d @ [p]))"
proof -
  show "twitter cfg (req\<lparr>req_user := v\<rparr>) d t c = twitter cfg req d t c"
    using co by (simp add: twitter_def Let_def redirect_next_ignores_user split: sum.splits)
  let ?rows = "profiles_where d Twitter (tw_id (user_info req)) (inst_class obj) (Some (inst_pk obj))"
  show "case outcome (twitter cfg req d t c) of
           Inl e \<Rightarrow> e = MultipleObjectsReturned \<and> db_after (twitter cfg req d t c) = d
         | Inr resp \<Rightarrow>
             (\<exists>n. resp = Redirect n)
             \<and> socialregistration_connect_object (session_after (twitter cfg req d t c)) = None
             \<and> users (db_after (twitter cfg req d t c)) = users d
             \<and> (\<exists>p. p \<in> set (profiles (db_after (twitter cfg req d t c)))
                    \<and> provider p = Twitter \<and> remote_id p = tw_id (user_info req)
                    \<and> content_type p = Some (inst_class obj) \<and> object_id p = Some (inst_pk obj)
                    \<and> (profiles (db_after (twitter cfg req d t c)) = profiles d
                         \<or> profiles (db_after (twitter cfg req d t c)) = profiles d @ [p]))"
  proof (cases ?rows)
    case Nil
    then have "twitter cfg req d t c
        = redirect_next cfg req
            (snd (create_profile Twitter (tw_id (user_info req)) (screen_name (user_info req))
                    (Some (session_token (req_session req) oauth_token))
                    (session_token (req_session req) oauth_token_secret)
                    (inst_class obj) (inst_pk obj) d))
            ((req_session req)\<lparr>socialregistration_connect_object := None\<rparr>)"
      using co by (simp add: twitter_def Let_def orm_get_def)
    then show ?thesis
      by (simp add: redirect_next_fields create_profile_appends get_next_keeps_pending)
  next
    case (Cons x xs)
    then have x: "x \<in> set ?rows" by simp
    show ?thesis
    proof (cases xs)
      case Nil
      with Cons have "twitter cfg req d t c
          = redirect_next cfg req d ((req_session req)\<lparr>socialregistration_connect_object := None\<rparr>)"
        using co by (simp add: twitter_def Let_def orm_get_def)
      then show ?thesis
        using x by (auto simp: redirect_next_fields get_next_keeps_pending profiles_where_member)
    next
      case (Cons y ys)
      with \<open>?rows = x # xs\<close> have "twitter cfg req d t c
          = raised MultipleObjectsReturned d (req_session req)"
        using co by (simp add: twitter_def Let_def orm_get_def)
      then show ?thesis by (simp add: raised_def)
    qed
  qed
qed

lemma openid_connect_object:
  assumes co: "socialregistration_connect_object (req_session req) = Some (Some obj)"
    and ident: "openid_identity req = Some identity"
  shows "openid_callback cfg (req\<lparr>req_user := v\<rparr>) d t c it = openid_callback cfg req d t c it"
    and "case outcome (openid_callback cfg req d t c it) of
           Inl e \<Rightarrow> e = MultipleObjectsReturned \<and> db_after (openid_callback cfg req d t c it) = d
         | Inr resp \<Rightarrow>
             (\<exists>n. resp = Redirect n)
             \<and> socialregistration_connect_object (session_after (openid_callback cfg req d t c it)) = None
             \<and> users (db_after (openid_callback cfg req d t c it)) = users d
             \<and> (\<exists>p. p \<in> set (profiles (db_after (openid_callback cfg req d t c it)))
                    \<and> provider p = OpenID \<and> remote_id p = identity
                    \<and> content_type p = Some (inst_class obj) \<and> object_id p = Some (inst_pk obj)
                    \<and> (profiles (db_after (openid_callback cfg req d t c it)) = profiles d
                         \<or> profiles (db_after (openid_callback cfg req d t c it)) = profiles d @ [p]))"
proof -
  show "openid_callback cfg (req\<lparr>req_user := v\<rparr>) d t c it = openid_callback cfg req d t c it"
    using co ident by (simp add: openid_callback_def Let_def redirect_next_ignores_user split: sum.splits)
  let ?rows = "profiles_where d OpenID identity (inst_class obj) (Some (inst_pk obj))"
  show "case outcome (openid_callback cfg req d t c it) of
           Inl e \<Rightarrow> e = MultipleObjectsReturned \<and> db_after (openid_callback cfg req d t c it) = d
         | Inr resp \<Rightarrow>
             (\<exists>n. resp = Redirect n)
             \<and> socialregistration_connect_object (session_after (openid_callback cfg req d t c it)) = None
             \<and> users (db_after (openid_callback cfg req d t c it)) = users d
             \<and> (\<exists>p. p \<in> set (profiles (db_after (openid_callback cfg req d t c it)))
                    \<and> provider p = OpenID \<and> remote_id p = identity
                    \<and> content_type p = Some (inst_class obj) \<and> object_id p = Some (inst_pk obj)
                    \<and> (profiles (db_after (openid_callback cfg req d t c it)) = profiles d
                         \<or> profiles (db_after (openid_callback cfg req d t c it)) = profiles d @ [p]))"
  proof (cases ?rows)
    case Nil
    then have "openid_callback cfg req d t c it
        = redirect_next cfg req
            (snd (create_profile OpenID identity [] (Some []) [] (inst_class obj) (inst_pk obj) d))
            ((req_session req)\<lparr>socialregistration_connect_object := None\<rparr>)"
      using co ident by (simp add: openid_callback_def Let_def orm_get_def)
    then show ?thesis
      by (simp add: redirect_next_fields create_profile_appends get_next_keeps_pending)
  next
    case (Cons x xs)
    then have x: "x \<in> set ?rows" by simp
    show ?thesis
    proof (cases xs)
      case Nil
      with Cons have "openid_callback cfg req d t c it
          = redirect_next cfg req d ((req_session req)\<lparr>socialregistration_connect_object := None\<rparr>)"
        using co ident by (simp add: openid_callback_def Let_def orm_get_def)
      then show ?thesis
        using x by (auto simp: redirect_next_fields get_next_keeps_pending profiles_where_member)
    next
      case (Cons y ys)
      with \<open>?rows = x # xs\<close> have "openid_callback cfg req d t c it
          = raised MultipleObjectsReturned d (req_session req)"
        using co ident by (simp add: openid_callback_def Let_def orm_get_def)
      then show ?thesis by (simp add: raised_def)
    qed
  qed
qed

text \<open>
  Claim C2. When the session carries a connect object, \<open>twitter\<close> and
  \<open>openid_callback\<close> answer the same whoever the request's user is: the branch of
  the logged-in user is not reached. Unless the lookup finds several rows and
  fails, the view redirects, removes the connect object from the session, leaves
  the accounts alone, and the database holds a profile of the provider identity
  that is bound to the connect object: the one that was found, or the one new row.
\<close>

theorem connect_object_wins:
  assumes "socialregistration_connect_object (req_session req) = Some (Some obj)"
  shows "twitter cfg (req\<lparr>req_user := v\<rparr>) d t c = twitter cfg req d t c
    \<and> (case outcome (twitter cfg req d t c) of
           Inl e \<Rightarrow> e = MultipleObjectsReturned \<and> db_after (twitter cfg req d t c) = d
         | Inr resp \<Rightarrow>
             (\<exists>n. resp = Redirect n)
             \<and> socialregistration_connect_object (session_after (twitter cfg req d t c)) = None
             \<and> users (db_after (twitter cfg req d t c)) = users d
             \<and> (\<exists>p. p \<in> set (profiles (db_after (twitter cfg req d t c)))
                    \<and> provider p = Twitter \<and> remote_id p = tw_id (user_info req)
                    \<and> content_type p = Some (inst_class obj) \<and> object_id p = Some (inst_pk obj)
                    \<and> (profiles (db_after (twitter cfg req d t c)) = profiles d
                         \<or> profiles (db_after (twitter cfg req d t c)) = profiles d @ [p])))
    \<and> (openid_identity req = Some identity \<longrightarrow>
         openid_callback cfg (req\<lparr>req_user := v\<rparr>) d t c it = openid_callback cfg req d t c it
         \<and> (case outcome (openid_callback cfg req d t c it) of
           Inl e \<Rightarrow> e = MultipleObjectsReturned \<and> db_after (openid_callback cfg req d t c it) = d
         | Inr resp \<Rightarrow>
             (\<exists>n. resp = Redirect n)
             \<and> socialregistration_connect_object (session_after (openid_callback cfg req d t c it)) = None
             \<and> users (db_after (openid_callback cfg req d t c it)) = users d
             \<and> (\<exists>p. p \<in> set (profiles (db_after (openid_callback cfg req d t c it)))
                    \<and> provider p = OpenID \<and> remote_id p = identity
                    \<and> content_type p = Some (inst_class obj) \<and> object_id p = Some (inst_pk obj)
                    \<and> (profiles (db_after (openid_callback cfg req d t c it)) = profiles d
                         \<or> profiles (db_after (openid_callback cfg req d t c it)) = profiles d @ [p]))))"
proof (intro conjI impI)
  show "twitter cfg (req\<lparr>req_user := v\<rparr>) d t c = twitter cfg req d t c"
    by (rule twitter_connect_object(1) [OF assms])
next
  assume "openid_identity req = Some identity"
  then show "openid_callback cfg (req\<lparr>req_user := v\<rparr>) d t c it = openid_callback cfg req d t c it"
    by (rule openid_connect_object(1) [OF assms])
next
  assume "openid_identity req = Some identity"
  then show "case outcome (openid_callback cfg req d t c it) of
           Inl e \<Rightarrow> e = MultipleObjectsReturned \<and> db_after (openid_callback cfg req d t c it) = d
         | Inr resp \<Rightarrow>
             (\<exists>n. resp = Redirect n)
             \<and> socialregistration_connect_object (session_after (openid_callback cfg req d t c it)) = None
             \<and> users (db_after (openid_callback cfg req d t c it)) = users d
             \<and> (\<exists>p. p \<in> set (profiles (db_after (openid_callback cfg req d t c it)))
                    \<and> provider p = OpenID \<and> remote_id p = identity
                    \<and> content_type p = Some (inst_class obj) \<and> object_id p = Some (inst_pk obj)
                    \<and> (profiles (db_after (openid_callback cfg req d t c it)) = profiles d
                         \<or> profiles (db_after (openid_callback cfg req d t c it)) = profiles d @ [p]))"
    by (rule openid_connect_object(2) [OF assms])
qed (rule twitter_connect_object(2) [OF assms])

theorem connect_object_wins_witness:
  "twitter example_settings (example_request ''GET'' None example_connect) (example_db []) ''i.html'' []
     = twitter example_settings (example_request ''GET'' (Some alice) example_connect)
         (example_db []) ''i.html'' []
   \<and> profiles (db_after (twitter example_settings
         (example_request ''GET'' (Some alice) example_connect) (example_db []) ''i.html'' []))
     = [\<lparr>profile_pk = Some 1, provider = Twitter, remote_id = ''7'', screenname = ''al'',
         consumer_key = Some [], consumer_secret = [],
         content_type = Some (DomainModel ''Article''), object_id = Some 42\<rparr>]
   \<and> profiles (db_after (openid_callback example_settings
         ((example_request ''GET'' (Some alice) example_connect)
            \<lparr>openid_identity := Some ''https://example.com/alice''\<rparr>)
         (example_db []) ''o.html'' [] ''i.html''))
     = [\<lparr>profile_pk = Some 1, provider = OpenID, remote_id = ''https://example.com/alice'',
         screenname = [], consumer_key = Some [], consumer_secret = [],
         content_type = Some (DomainModel ''Article''), object_id = Some 42\<rparr>]"
  using connect_object_wins [where req = "example_request ''GET'' (Some alice) example_connect"
      and obj = article42 and cfg = example_settings and v = None and d = "example_db []"
      and t = "''i.html''" and c = "[]"]
    connect_object_wins [where req = "(example_request ''GET'' (Some alice) example_connect)
            \<lparr>openid_identity := Some ''https://example.com/alice''\<rparr>"
      and obj = article42 and cfg = example_settings and v = None and d = "example_db []"
      and t = "''o.html''" and c = "[]" and it = "''i.html''"
      and identity = "''https://example.com/alice''"]
  by (simp add: example_connect_def example_defs twitter_def openid_callback_def
        profiles_where_def orm_get_def create_profile_def session_token_def redirect_next_def
        model_defs)

section \<open>Connecting again\<close>

lemma filter_map_commute:
  "(\<forall>x\<in>set xs. P (f x) = P x) \<Longrightarrow> filter P (map f xs) = map f (filter P xs)"
  by (induction xs) auto

lemma log_next_then_redirect_fields:
  "db_after (log_next_then_redirect cfg req d s) = d"
  "\<exists>n. outcome (log_next_then_redirect cfg req d s) = Inr (Redirect n)"
  by (simp_all add: log_next_then_redirect_def redirect_next_def returned_def split: prod.splits)

lemma same_row_unique:
  assumes "distinct (map (\<lambda>p. (provider p, profile_pk p)) ps)"
    and "p \<in> set ps" and "q \<in> set ps" and "same_profile_row p q"
  shows "q = p"
proof -
  have "inj_on (\<lambda>p. (provider p, profile_pk p)) (set ps)"
    using assms(1) by (simp add: distinct_map)
  moreover have "(provider q, profile_pk q) = (provider p, profile_pk p)"
    using assms(4) by (simp add: same_profile_row_def)
  ultimately show ?thesis using assms(2,3) by (auto dest: inj_onD)
qed

lemma save_profile_update:
  assumes "p \<in> set (profiles d)" and "profile_pk p = Some j"
  shows "snd (save_profile (p\<lparr>consumer_key := ck\<rparr>) d)
     = d\<lparr>profiles := map (\<lambda>q. if same_profile_row p q then p\<lparr>consumer_key := ck\<rparr> else q) (profiles d)\<rparr>"
proof -
  have "same_profile_row (p\<lparr>consumer_key := ck\<rparr>) = same_profile_row p"
    by (rule ext) (simp add: same_profile_row_def)
  moreover have "list_ex (same_profile_row p) (profiles d)"
    using assms(1) by (auto simp: list_ex_iff same_profile_row_def)
  ultimately show ?thesis
    using assms(2) by (simp add: save_profile_def)
qed

lemma profiles_where_after_update:
  assumes keys: "distinct (map (\<lambda>p. (provider p, profile_pk p)) (profiles d))"
    and p: "p \<in> set (profiles d)" "profile_pk p = Some j"
  shows "profiles_where (snd (save_profile (p\<lparr>consumer_key := ck\<rparr>) d)) pv rid c ko
     = map (\<lambda>q. if same_profile_row p q then p\<lparr>consumer_key := ck\<rparr> else q)
         (profiles_where d pv rid c ko)"
proof -
  let ?f = "\<lambda>q. if same_profile_row p q then p\<lparr>consumer_key := ck\<rparr> else q"
  let ?P = "\<lambda>p. provider p = pv \<and> remote_id p = rid \<and> content_type p = Some c
                  \<and> (case ko of None \<Rightarrow> True | Some n \<Rightarrow> object_id p = Some n)"
  have "\<forall>q\<in>set (profiles d). ?P (?f q) = ?P q"
  proof
    fix q assume q: "q \<in> set (profiles d)"
    show "?P (?f q) = ?P q"
    proof (cases "same_profile_row p q")
      case True
      then have "q = p" using same_row_unique [OF keys p(1) q] by simp
      then show ?thesis by (simp split: option.splits)
    next
      case False
      then show ?thesis by simp
    qed
  qed
  then have "filter ?P (map ?f (profiles d)) = map ?f (filter ?P (profiles d))"
    by (rule filter_map_commute)
  then show ?thesis
    using save_profile_update [OF p, of ck] by (simp add: profiles_where_def)
qed

lemma facebook_connect_user_branch:
  assumes "get_object d (GET req) = Inr None" and "fb_user (facebook req) = Some fu" and "fu \<noteq> []"
    and "uid (facebook req) = Some fb_uid" and "req_user req = Some u"
  shows "facebook_connect cfg req d t c =
     (case orm_get (profiles_where d Facebook fb_uid UserModel None) of
        Inr prof \<Rightarrow>
          log_next_then_redirect cfg req
            (snd (save_profile (prof\<lparr>consumer_key := fb_access_token fu\<rparr>) d)) (req_session req)
      | Inl e \<Rightarrow>
          if e = DoesNotExist then
            (case user_pk u of
               None \<Rightarrow> raised IntegrityError d (req_session req)
             | Some k \<Rightarrow>
                 log_next_then_redirect cfg req
                   (snd (create_profile Facebook fb_uid [] (fb_access_token fu)
                           (fb_secret fu) UserModel k d)) (req_session req))
          else raised e d (req_session req))"
  using assms by (simp add: facebook_connect_def Let_def)

lemma facebook_reconnect:
  assumes keys: "list_all (\<lambda>p. profile_pk p \<noteq> None) (profiles d)"
      "distinct (map (\<lambda>p. (provider p, profile_pk p)) (profiles d))"
    and br: "get_object d (GET req) = Inr None" "fb_user (facebook req) = Some fu" "fu \<noteq> []"
      "uid (facebook req) = Some fb_uid" "req_user req = Some u"
    and linked: "profiles_where d Facebook fb_uid UserModel (Some k) \<noteq> []"
  shows "length (profiles_where (db_after (facebook_connect cfg req d t c)) Facebook fb_uid UserModel (Some k))
           = length (profiles_where d Facebook fb_uid UserModel (Some k))"
    and "length (profiles (db_after (facebook_connect cfg req d t c))) = length (profiles d)"
    and "profiles_where d Facebook fb_uid UserModel None = [prof] \<Longrightarrow>
         profiles_where (db_after (facebook_connect cfg req d t c)) Facebook fb_uid UserModel None
           = [prof\<lparr>consumer_key := fb_access_token fu\<rparr>]"
proof -
  let ?rows = "profiles_where d Facebook fb_uid UserModel None"
  let ?r = "facebook_connect cfg req d t c"
  have sub: "set (profiles_where d Facebook fb_uid UserModel (Some k)) \<subseteq> set ?rows"
    by (auto simp: profiles_where_def)
  with linked have ne: "?rows \<noteq> []" by (cases "profiles_where d Facebook fb_uid UserModel (Some k)") auto
  have main: "(length (profiles_where (db_after ?r) Facebook fb_uid UserModel (Some k))
           = length (profiles_where d Facebook fb_uid UserModel (Some k)))
         \<and> length (profiles (db_after ?r)) = length (profiles d)
         \<and> (?rows = [prof] \<longrightarrow> profiles_where (db_after ?r) Facebook fb_uid UserModel None
           = [prof\<lparr>consumer_key := fb_access_token fu\<rparr>])"
  proof (cases ?rows)
    case Nil
    with ne show ?thesis by simp
  next
    case (Cons x xs)
    show ?thesis
    proof (cases xs)
      case (Cons y ys)
      with \<open>?rows = x # xs\<close> have "?r = raised MultipleObjectsReturned d (req_session req)"
        by (simp add: facebook_connect_user_branch [OF br] orm_get_def)
      with Cons \<open>?rows = x # xs\<close> show ?thesis by (simp add: raised_def)
    next
      case Nil
      with Cons have rows: "?rows = [x]" by simp
      then have "x \<in> set ?rows" by simp
      then have xin: "x \<in> set (profiles d)" by (simp add: profiles_where_def)
      with keys(1) obtain j where j: "profile_pk x = Some j"
        by (auto simp: list_all_iff)
      have r: "db_after ?r = snd (save_profile (x\<lparr>consumer_key := fb_access_token fu\<rparr>) d)"
        using rows
        by (simp add: facebook_connect_user_branch [OF br] orm_get_def log_next_then_redirect_fields)
      have same: "same_profile_row x x" by (simp add: same_profile_row_def)
      have a: "length (profiles_where (db_after ?r) Facebook fb_uid UserModel (Some k))
           = length (profiles_where d Facebook fb_uid UserModel (Some k))"
        by (simp only: r profiles_where_after_update [OF keys(2) xin j] length_map)
      have b: "profiles_where (db_after ?r) Facebook fb_uid UserModel None
           = [x\<lparr>consumer_key := fb_access_token fu\<rparr>]"
        using same by (simp only: r profiles_where_after_update [OF keys(2) xin j] rows) simp
      have c: "length (profiles (db_after ?r)) = length (profiles d)"
        by (simp add: r save_profile_update [OF xin j])
      from a b c rows show ?thesis by simp
    qed
  qed
  from main show "length (profiles_where (db_after ?r) Facebook fb_uid UserModel (Some k))
           = length (profiles_where d Facebook fb_uid UserModel (Some k))"
    and "length (profiles (db_after ?r)) = length (profiles d)"
    and "?rows = [prof] \<Longrightarrow> profiles_where (db_after ?r) Facebook fb_uid UserModel None
           = [prof\<lparr>consumer_key := fb_access_token fu\<rparr>]"
    by simp_all
qed

lemma twitter_reconnect:
  assumes co: "socialregistration_connect_object (req_session req) = None
           \<or> socialregistration_connect_object (req_session req) = Some None"
    and u: "req_user req = Some u"
    and linked: "profiles_where d Twitter (tw_id (user_info req)) UserModel (Some k) \<noteq> []"
  shows "db_after (twitter cfg req d t c) = d"
proof -
  let ?rows = "profiles_where d Twitter (tw_id (user_info req)) UserModel None"
  have "set (profiles_where d Twitter (tw_id (user_info req)) UserModel (Some k)) \<subseteq> set ?rows"
    by (auto simp: profiles_where_def)
  with linked have ne: "?rows \<noteq> []"
    by (cases "profiles_where d Twitter (tw_id (user_info req)) UserModel (Some k)") auto
  then have "orm_get ?rows \<noteq> Inl DoesNotExist" by (simp add: orm_get_cases)
  then show ?thesis
    using co u
    by (auto simp: twitter_def Let_def log_next_then_redirect_fields raised_def
        split: sum.splits)
qed

text \<open>
  Claim C1, as the code has it. The database keeps a key for every profile row and
  no two rows of a provider share a key. A logged-in user, already linked to the
  provider identity, runs the connect flow again with no connect object. In
  \<open>facebook_connect\<close> the number of profiles of (provider, remote id, user) and the
  number of all profiles stay the same, and when the lookup finds its one row,
  that row is afterwards the same row with the new access token as
  \<open>consumer_key\<close>. In \<open>twitter\<close> the database is left as it was: the profile is
  fetched and nothing is written.
\<close>

theorem repeated_connect_keeps_one_profile:
  assumes "req_user req = Some u"
    and "list_all (\<lambda>p. profile_pk p \<noteq> None) (profiles d)"
    and "distinct (map (\<lambda>p. (provider p, profile_pk p)) (profiles d))"
  shows "(get_object d (GET req) = Inr None \<longrightarrow> fb_user (facebook req) = Some fu \<longrightarrow> fu \<noteq> [] \<longrightarrow>
          uid (facebook req) = Some fb_uid \<longrightarrow>
          profiles_where d Facebook fb_uid UserModel (Some k) \<noteq> [] \<longrightarrow>
            length (profiles_where (db_after (facebook_connect cfg req d t c)) Facebook fb_uid
                      UserModel (Some k))
              = length (profiles_where d Facebook fb_uid UserModel (Some k))
            \<and> length (profiles (db_after (facebook_connect cfg req d t c))) = length (profiles d)
            \<and> (profiles_where d Facebook fb_uid UserModel None = [prof] \<longrightarrow>
                 profiles_where (db_after (facebook_connect cfg req d t c)) Facebook fb_uid
                     UserModel None
                   = [prof\<lparr>consumer_key := fb_access_token fu\<rparr>]))
       \<and> ((socialregistration_connect_object (req_session req) = None
             \<or> socialregistration_connect_object (req_session req) = Some None) \<longrightarrow>
           profiles_where d Twitter (tw_id (user_info req)) UserModel (Some k) \<noteq> [] \<longrightarrow>
             db_after (twitter cfg req d t c) = d)"
  using facebook_reconnect [OF assms(2,3) _ _ _ _ assms(1)]
    twitter_reconnect [OF _ assms(1)]
  by simp

theorem repeated_connect_keeps_one_profile_witness:
  "profiles_where
     (db_after (facebook_connect example_settings example_fb_request
        (example_db [example_profile Facebook ''fb1'' UserModel 1]) ''facebook.html'' []))
     Facebook ''fb1'' UserModel None
     = [(example_profile Facebook ''fb1'' UserModel 1)\<lparr>consumer_key := Some ''new''\<rparr>]
   \<and> length (profiles (db_after (facebook_connect example_settings example_fb_request
        (example_db [example_profile Facebook ''fb1'' UserModel 1]) ''facebook.html'' []))) = 1
   \<and> db_after (twitter example_settings example_tw_request
        (example_db [example_profile Twitter ''7'' UserModel 1]) ''inactive.html'' [])
     = example_db [example_profile Twitter ''7'' UserModel 1]"
  using repeated_connect_keeps_one_profile [where req = example_fb_request and u = alice
      and d = "example_db [example_profile Facebook ''fb1'' UserModel 1]"
      and fu = "[(''access_token'', ''new''), (''secret'', ''newsecret'')]"
      and fb_uid = "''fb1''" and k = 1 and cfg = example_settings and t = "''facebook.html''"
      and c = "[]" and prof = "example_profile Facebook ''fb1'' UserModel 1"]
    repeated_connect_keeps_one_profile [where req = example_tw_request and u = alice
      and d = "example_db [example_profile Twitter ''7'' UserModel 1]"
      and k = 1 and cfg = example_settings and t = "''inactive.html''" and c = "[]"]
  by (simp add: example_fb_request_def example_tw_request_def example_defs profiles_where_def
        get_object_def fb_access_token_def)

text \<open>
  The account alice is linked to the Twitter identity 7 with the stored token
  \<open>old\<close>; she connects again and the session holds the token \<open>new\<close>. The view
  redirects, and the stored \<open>consumer_key\<close> is still \<open>old\<close>.
\<close>

theorem twitter_reconnect_keeps_old_token_counterexample:
  "req_user example_tw_request = Some alice
   \<and> profiles_where (example_db [example_profile Twitter ''7'' UserModel 1]) Twitter
        (tw_id (user_info example_tw_request)) UserModel (user_pk alice)
      = [example_profile Twitter ''7'' UserModel 1]
   \<and> session_token (req_session example_tw_request) oauth_token = ''new''
   \<and> outcome (twitter example_settings example_tw_request
        (example_db [example_profile Twitter ''7'' UserModel 1]) ''inactive.html'' [])
      = Inr (Redirect ''/accounts/profile/'')
   \<and> map consumer_key (profiles (db_after (twitter example_settings example_tw_request
        (example_db [example_profile Twitter ''7'' UserModel 1]) ''inactive.html'' [])))
      = [Some ''old'']"
  by (simp add: example_tw_request_def example_defs profiles_where_def twitter_def
        session_token_def orm_get_def log_next_then_redirect_def redirect_next_def model_defs)

section \<open>Completing the setup\<close>

lemma fold_max_ge:
  "a \<le> fold (\<lambda>k m. case k of None \<Rightarrow> m | Some n \<Rightarrow> max n m) ks (a::nat)"
proof (induction ks arbitrary: a)
  case Nil
  show ?case by simp
next
  case (Cons k ks)
  show ?case
  proof (cases k)
    case None
    then show ?thesis using Cons [of a] by simp
  next
    case (Some n)
    have "a \<le> max n a" by simp
    also have "\<dots> \<le> fold (\<lambda>k m. case k of None \<Rightarrow> m | Some n \<Rightarrow> max n m) ks (max n a)"
      by (rule Cons)
    finally show ?thesis using Some by simp
  qed
qed

lemma fold_max_member:
  "Some n \<in> set ks \<Longrightarrow> n \<le> fold (\<lambda>k m. case k of None \<Rightarrow> m | Some n \<Rightarrow> max n m) ks (a::nat)"
proof (induction ks arbitrary: a)
  case Nil
  then show ?case by simp
next
  case (Cons k ks)
  show ?case
  proof (cases "k = Some n")
    case True
    have "n \<le> max n a" by simp
    also have "\<dots> \<le> fold (\<lambda>k m. case k of None \<Rightarrow> m | Some n \<Rightarrow> max n m) ks (max n a)"
      by (rule fold_max_ge)
    finally show ?thesis using True by simp
  next
    case False
    with Cons.prems have "Some n \<in> set ks" by simp
    then show ?thesis using Cons.IH by (cases k) simp_all
  qed
qed

lemma next_pk_fresh: "Some (next_pk ks) \<notin> set ks"
proof
  assume "Some (next_pk ks) \<in> set ks"
  then have "next_pk ks \<le> fold (\<lambda>k m. case k of None \<Rightarrow> m | Some n \<Rightarrow> max n m) ks 0"
    by (rule fold_max_member)
  then show False by (simp add: next_pk_def)
qed

lemma next_user_pk_fresh: "u \<in> set (users d) \<Longrightarrow> user_pk u \<noteq> Some (next_pk (map user_pk (users d)))"
  using next_pk_fresh [of "map user_pk (users d)"] by (metis image_eqI set_map)

lemma save_user_insert:
  assumes "user_pk u = None" and "list_all (\<lambda>v. username v \<noteq> username u) (users d)"
  shows "save_user u d
     = Inr (u\<lparr>user_pk := Some (next_pk (map user_pk (users d)))\<rparr>,
            d\<lparr>users := users d @ [u\<lparr>user_pk := Some (next_pk (map user_pk (users d)))\<rparr>]\<rparr>)"
proof -
  have "\<not> list_ex (\<lambda>v. username v = username u \<and> (user_pk u = None \<or> user_pk v \<noteq> user_pk u)) (users d)"
    using assms(2) by (auto simp: list_ex_iff list_all_iff)
  then show ?thesis using assms(1) by (simp add: save_user_def Let_def)
qed

lemma save_user_update_last:
  assumes k: "user_pk u = Some k" and d: "users d = us @ [u']"
    and fresh: "\<forall>v\<in>set us. user_pk v \<noteq> Some k"
    and names: "list_all (\<lambda>v. username v \<noteq> username u) us"
    and same: "user_pk u' = Some k"
  shows "save_user u d = Inr (u, d\<lparr>users := us @ [u]\<rparr>)"
proof -
  have a: "\<not> list_ex (\<lambda>v. username v = username u \<and> (user_pk u = None \<or> user_pk v \<noteq> user_pk u))
             (us @ [u'])"
    using names k same by (auto simp: list_ex_iff list_all_iff)
  have b: "list_ex (\<lambda>v. user_pk v = Some k) (us @ [u'])"
    using same by (simp add: list_ex_iff)
  have c: "map (\<lambda>v. if user_pk v = Some k then u else v) us = us"
    using fresh by (induction us) auto
  show ?thesis
    using a b c k same by (simp add: save_user_def d)
qed

lemma save_profile_insert:
  "profile_pk p = None \<Longrightarrow>
   save_profile p d
     = (p\<lparr>profile_pk := Some (next_pk (map profile_pk (filter (\<lambda>q. provider q = provider p) (profiles d))))\<rparr>,
        d\<lparr>profiles := profiles d @
          [p\<lparr>profile_pk := Some (next_pk (map profile_pk (filter (\<lambda>q. provider q = provider p) (profiles d))))\<rparr>]\<rparr>)"
  by (simp add: save_profile_def Let_def)

lemma authenticate_new_account:
  assumes d: "users d = us @ [u]" "profiles d = ps @ [p]"
    and nomatch: "filter (\<lambda>p. provider p = pv \<and> remote_id p = rid) ps = []"
    and p: "provider p = pv" "remote_id p = rid" "content_type p = Some UserModel" "object_id p = Some k"
    and fresh: "\<forall>v\<in>set us. user_pk v \<noteq> Some k" and u: "user_pk u = Some k"
  shows "authenticate d pv rid = Some u"
proof -
  have "filter (\<lambda>v. user_pk v = Some k) us = []"
    using fresh by (induction us) auto
  then show ?thesis
    using nomatch p u by (simp add: authenticate_def d)
qed

lemma authenticate_login_redirect_result:
  assumes "socialregistration_profile s = Some p"
    and "authenticate d (provider p) (remote_id p) = Some u"
  shows "(\<exists>url. outcome (authenticate_login_redirect cfg req d s) = Inr (Redirect url))
    \<and> db_after (authenticate_login_redirect cfg req d s) = d
    \<and> auth_user_id (session_after (authenticate_login_redirect cfg req d s)) = user_pk u
    \<and> socialregistration_user (session_after (authenticate_login_redirect cfg req d s)) = None
    \<and> socialregistration_profile (session_after (authenticate_login_redirect cfg req d s)) = None"
proof -
  let ?s3 = "login s u\<lparr>socialregistration_user := None, socialregistration_profile := None\<rparr>"
  obtain n s4 where g: "get_next cfg req ?s3 = (n, s4)" by (cases "get_next cfg req ?s3")
  have r: "authenticate_login_redirect cfg req d s = returned (Redirect n) d s4"
    using assms g by (simp add: authenticate_login_redirect_def Let_def)
  have "auth_user_id ?s3 = user_pk u"
    by (simp add: login_def Let_def split: option.splits)
  then have "auth_user_id s4 = user_pk u"
    "socialregistration_user s4 = None" "socialregistration_profile s4 = None"
    using get_next_keeps_pending [of cfg req ?s3] g by simp_all
  then show ?thesis by (simp add: r returned_def)
qed

lemma setup_generate_creates:
  assumes su: "user_pk su = None" and sp: "profile_pk sp = None"
    and nomatch: "filter (\<lambda>p. provider p = provider sp \<and> remote_id p = remote_id sp) (profiles d) = []"
    and names: "list_all (\<lambda>v. username v \<noteq> take 30 uuid) (users d)"
    and k: "k = next_pk (map user_pk (users d))"
    and j: "j = next_pk (map profile_pk (filter (\<lambda>q. provider q = provider sp) (profiles d)))"
    and r: "r = setup_generate cfg uuid req d s su sp"
  shows "db_after r
           = d\<lparr>users := users d @ [su\<lparr>user_pk := Some k, username := take 30 uuid,
                                        password := UNUSABLE_PASSWORD\<rparr>],
                profiles := profiles d @ [sp\<lparr>profile_pk := Some j, content_type := Some UserModel,
                                              object_id := Some k\<rparr>]\<rparr>
    \<and> (\<exists>url. outcome r = Inr (Redirect url))
    \<and> auth_user_id (session_after r) = Some k
    \<and> socialregistration_user (session_after r) = None
    \<and> socialregistration_profile (session_after r) = None"
proof -
  let ?u0 = "su\<lparr>username := take 30 uuid\<rparr>"
  let ?u1 = "?u0\<lparr>user_pk := Some k\<rparr>"
  let ?d1 = "d\<lparr>users := users d @ [?u1]\<rparr>"
  let ?u2 = "set_unusable_password ?u1"
  let ?d2 = "d\<lparr>users := users d @ [?u2]\<rparr>"
  let ?p0 = "bind_to_user sp ?u2"
  let ?p1 = "?p0\<lparr>profile_pk := Some j\<rparr>"
  let ?d3 = "d\<lparr>users := users d @ [?u2], profiles := profiles d @ [?p1]\<rparr>"
  let ?s1 = "s\<lparr>socialregistration_user := Some ?u2, socialregistration_profile := Some ?p1\<rparr>"
  have fresh: "\<forall>v\<in>set (users d). user_pk v \<noteq> Some k"
    using next_user_pk_fresh k by blast
  have s1: "save_user ?u0 d = Inr (?u1, ?d1)"
    using save_user_insert [of ?u0 d] su names k by simp
  have s2: "save_user ?u2 ?d1 = Inr (?u2, ?d2)"
    using save_user_update_last [of ?u2 k ?d1 "users d" ?u1] fresh names
    by (simp add: set_unusable_password_def)
  have s3: "save_profile ?p0 ?d2 = (?p1, ?d3)"
    using save_profile_insert [of ?p0 ?d2] sp j by (simp add: bind_to_user_def)
  have eq: "r = authenticate_login_redirect cfg req ?d3 ?s1"
    unfolding r setup_generate_def Let_def s1 by (simp add: s2 s3)
  have au: "authenticate ?d3 (provider ?p1) (remote_id ?p1) = Some ?u2"
    using authenticate_new_account [of ?d3 "users d" ?u2 "profiles d" ?p1 "provider sp" "remote_id sp" k]
      nomatch fresh
    by (simp add: bind_to_user_def set_unusable_password_def)
  have "socialregistration_profile ?s1 = Some ?p1" by simp
  from authenticate_login_redirect_result [OF this au, of cfg req]
  show ?thesis
    by (simp add: eq set_unusable_password_def bind_to_user_def)
qed

lemma setup_pick_username_creates:
  assumes su: "user_pk su = None" and sp: "profile_pk sp = None"
    and nomatch: "filter (\<lambda>p. provider p = provider sp \<and> remote_id p = remote_id sp) (profiles d) = []"
    and post: "req_method req = ''POST''" "map_of (POST req) ''username'' = Some n" "n \<noteq> []"
    and names: "list_all (\<lambda>v. username v \<noteq> n) (users d)"
    and k: "k = next_pk (map user_pk (users d))"
    and j: "j = next_pk (map profile_pk (filter (\<lambda>q. provider q = provider sp) (profiles d)))"
    and r: "r = setup_pick_username cfg req d s su sp t c"
  shows "db_after r
           = d\<lparr>users := users d @ [su\<lparr>user_pk := Some k, username := n,
                                        password := UNUSABLE_PASSWORD\<rparr>],
                profiles := profiles d @ [sp\<lparr>profile_pk := Some j, content_type := Some UserModel,
                                              object_id := Some k\<rparr>]\<rparr>
    \<and> (\<exists>url. outcome r = Inr (Redirect url))
    \<and> auth_user_id (session_after r) = Some k
    \<and> socialregistration_user (session_after r) = None
    \<and> socialregistration_profile (session_after r) = None"
proof -
  let ?u0 = "su\<lparr>username := n\<rparr>"
  let ?u1 = "?u0\<lparr>user_pk := Some k\<rparr>"
  let ?d1 = "d\<lparr>users := users d @ [?u1]\<rparr>"
  let ?p0 = "bind_to_user sp ?u1"
  let ?p1 = "?p0\<lparr>profile_pk := Some j\<rparr>"
  let ?d2 = "d\<lparr>users := users d @ [?u1], profiles := profiles d @ [?p1]\<rparr>"
  let ?u2 = "set_unusable_password ?u1"
  let ?d3 = "d\<lparr>users := users d @ [?u2], profiles := profiles d @ [?p1]\<rparr>"
  let ?s1 = "s\<lparr>socialregistration_user := Some ?u1, socialregistration_profile := Some ?p1\<rparr>"
  have fresh: "\<forall>v\<in>set (users d). user_pk v \<noteq> Some k"
    using next_user_pk_fresh k by blast
  have "filter (\<lambda>u. username u = n) (users d) = []"
    using names by (induction "users d") (auto simp: list_all_iff filter_empty_conv)
  then have valid: "UserForm_is_valid d (POST req) = FormValid"
    using post by (simp add: UserForm_is_valid_def)
  have s1: "save_user ?u0 d = Inr (?u1, ?d1)"
    using save_user_insert [of ?u0 d] su names k by simp
  have s2: "save_profile ?p0 ?d1 = (?p1, ?d2)"
    using save_profile_insert [of ?p0 ?d1] sp j by (simp add: bind_to_user_def)
  have form: "UserForm_save su sp (POST req) d = Inr (?u1, ?p1, ?d2)"
    using post by (simp add: UserForm_save_def s1 s2)
  have au1: "authenticate ?d2 (provider ?p1) (remote_id ?p1) = Some ?u1"
    using authenticate_new_account [of ?d2 "users d" ?u1 "profiles d" ?p1 "provider sp" "remote_id sp" k]
      nomatch fresh
    by (simp add: bind_to_user_def)
  have s3: "save_user ?u2 ?d2 = Inr (?u2, ?d3)"
    using save_user_update_last [of ?u2 k ?d2 "users d" ?u1] fresh names
    by (simp add: set_unusable_password_def)
  have eq: "r = authenticate_login_redirect cfg req ?d3 ?s1"
    unfolding r setup_pick_username_def using post(1) valid form au1 s3
    by (simp add: Let_def)
  have au2: "authenticate ?d3 (provider ?p1) (remote_id ?p1) = Some ?u2"
    using authenticate_new_account [of ?d3 "users d" ?u2 "profiles d" ?p1 "provider sp" "remote_id sp" k]
      nomatch fresh
    by (simp add: bind_to_user_def set_unusable_password_def)
  have "socialregistration_profile ?s1 = Some ?p1" by simp
  from authenticate_login_redirect_result [OF this au2, of cfg req]
  show ?thesis
    by (simp add: eq set_unusable_password_def bind_to_user_def)
qed

lemma unusable_password_facts:
  "password (u\<lparr>password := UNUSABLE_PASSWORD\<rparr>) \<noteq> []"
  "\<not> has_usable_password (u\<lparr>password := UNUSABLE_PASSWORD\<rparr>)"
  "\<not> check_password (u\<lparr>password := UNUSABLE_PASSWORD\<rparr>) raw"
  by (simp_all add: UNUSABLE_PASSWORD_def has_usable_password_def check_password_def)

text \<open>
  Claim C3. The session holds an unsaved account and an unsaved profile, no stored
  profile of the provider has the remote id, and no account holds the username:
  the one the user posts when \<open>GENERATE_USERNAME\<close> is off, the first 30
  characters of the drawn UUID when it is on. Then the setup view adds exactly one
  account row and exactly one profile row, the profile bound to the account; the
  account's password is the unusable sentinel, which is not empty and matches no
  password; the view redirects with the account logged in, and the session no
  longer holds the pending account and profile.
\<close>

theorem setup_creates_one_account_and_profile:
  assumes "socialregistration_user (req_session req) = Some su" and "user_pk su = None"
    and "socialregistration_profile (req_session req) = Some sp" and "profile_pk sp = None"
    and "filter (\<lambda>p. provider p = provider sp \<and> remote_id p = remote_id sp) (profiles d) = []"
    and "if GENERATE_USERNAME cfg then name = take 30 uuid
         else req_method req = ''POST'' \<and> map_of (POST req) ''username'' = Some name \<and> name \<noteq> []"
    and "list_all (\<lambda>v. username v \<noteq> name) (users d)"
    and "k = next_pk (map user_pk (users d))"
    and "j = next_pk (map profile_pk (filter (\<lambda>q. provider q = provider sp) (profiles d)))"
    and "account = su\<lparr>user_pk := Some k, username := name, password := UNUSABLE_PASSWORD\<rparr>"
    and "r = setup_view cfg uuid req d template extra_context"
  shows "db_after r
           = d\<lparr>users := users d @ [account],
                profiles := profiles d @ [sp\<lparr>profile_pk := Some j, content_type := Some UserModel,
                                              object_id := Some k\<rparr>]\<rparr>
    \<and> password account \<noteq> [] \<and> \<not> has_usable_password account
    \<and> (\<forall>raw. \<not> check_password account raw)
    \<and> (\<exists>url. outcome r = Inr (Redirect url))
    \<and> auth_user_id (session_after r) = Some k
    \<and> socialregistration_user (session_after r) = None
    \<and> socialregistration_profile (session_after r) = None"
proof (cases "GENERATE_USERNAME cfg")
  case True
  with assms(6) have name: "name = take 30 uuid" by simp
  have r: "r = setup_generate cfg uuid req d (req_session req) su sp"
    using assms(1,3,5,11) True by (simp add: setup_view_def Let_def)
  show ?thesis
    using setup_generate_creates [OF assms(2,4,5) assms(7) [unfolded name] assms(8,9) r]
      unusable_password_facts [of "su\<lparr>user_pk := Some k, username := name\<rparr>"]
    by (simp add: assms(10) name)
next
  case False
  with assms(6) have post: "req_method req = ''POST''" "map_of (POST req) ''username'' = Some name"
    "name \<noteq> []" by simp_all
  have r: "r = setup_pick_username cfg req d (req_session req) su sp template extra_context"
    using assms(1,3,5,11) False by (simp add: setup_view_def Let_def)
  show ?thesis
    using setup_pick_username_creates [OF assms(2,4,5) post assms(7,8,9) r]
      unusable_password_facts [of "su\<lparr>user_pk := Some k, username := name\<rparr>"]
    by (simp add: assms(10))
qed

lemma setup_link_existing_result:
  assumes sp: "profile_pk sp = None"
    and ex: "filter (\<lambda>p. provider p = provider sp \<and> remote_id p = remote_id sp) (profiles d) = ep # rest"
    and tgt: "content_type ep = Some UserModel" "object_id ep = Some k"
    and acc: "filter (\<lambda>u. user_pk u = Some k) (users d) = account # others"
    and j: "j = next_pk (map profile_pk (filter (\<lambda>q. provider q = provider sp) (profiles d)))"
    and r: "r = setup_link_existing cfg req d s sp ep"
  shows "db_after r
           = d\<lparr>profiles := profiles d @ [sp\<lparr>profile_pk := Some j, content_type := Some UserModel,
                                              object_id := Some k\<rparr>]\<rparr>
    \<and> (\<exists>url. outcome r = Inr (Redirect url))
    \<and> auth_user_id (session_after r) = Some k
    \<and> socialregistration_user (session_after r) = None
    \<and> socialregistration_profile (session_after r) = None"
proof -
  let ?p0 = "sp\<lparr>content_type := Some UserModel, object_id := Some k\<rparr>"
  let ?p1 = "?p0\<lparr>profile_pk := Some j\<rparr>"
  let ?d1 = "d\<lparr>profiles := profiles d @ [?p1]\<rparr>"
  let ?s1 = "s\<lparr>socialregistration_profile := Some ?p1\<rparr>"
  have s1: "save_profile ?p0 d = (?p1, ?d1)"
    using save_profile_insert [of ?p0 d] sp j by simp
  have eq: "r = authenticate_login_redirect cfg req ?d1 ?s1"
    unfolding r setup_link_existing_def using tgt by (simp add: s1)
  have "account \<in> set (filter (\<lambda>u. user_pk u = Some k) (users d))"
    by (simp add: acc)
  then have pk: "user_pk account = Some k" by simp
  have au: "authenticate ?d1 (provider ?p1) (remote_id ?p1) = Some account"
    using ex tgt acc by (simp add: authenticate_def)
  have "socialregistration_profile ?s1 = Some ?p1" by simp
  from authenticate_login_redirect_result [OF this au, of cfg req]
  show ?thesis by (simp add: eq pk)
qed

text \<open>
  Claim C7. Before any form is built, the setup view looks among the profiles of
  the pending profile's own class for the pending remote id. When the first such
  profile is bound to an account, the pending profile is saved with the same
  target, that account is logged in and the view redirects, whatever the request
  method and the username setting. When every stored profile with that remote id
  belongs to another provider, the shortcut is not taken: the view goes on to the
  username paths, and a GET with \<open>GENERATE_USERNAME\<close> off shows the username form.
\<close>

theorem setup_reuses_existing_profile:
  assumes "socialregistration_user (req_session req) = Some su"
    and "socialregistration_profile (req_session req) = Some sp" and "profile_pk sp = None"
    and "j = next_pk (map profile_pk (filter (\<lambda>q. provider q = provider sp) (profiles d)))"
    and "r = setup_view cfg uuid req d template extra_context"
  shows "(filter (\<lambda>p. provider p = provider sp \<and> remote_id p = remote_id sp) (profiles d) = ep # rest \<longrightarrow>
          content_type ep = Some UserModel \<longrightarrow> object_id ep = Some k \<longrightarrow>
          filter (\<lambda>u. user_pk u = Some k) (users d) = account # others \<longrightarrow>
            db_after r
              = d\<lparr>profiles := profiles d @ [sp\<lparr>profile_pk := Some j, content_type := Some UserModel,
                                                 object_id := Some k\<rparr>]\<rparr>
            \<and> (\<exists>url. outcome r = Inr (Redirect url))
            \<and> auth_user_id (session_after r) = Some k
            \<and> socialregistration_user (session_after r) = None
            \<and> socialregistration_profile (session_after r) = None)
       \<and> (list_all (\<lambda>p. remote_id p = remote_id sp \<longrightarrow> provider p \<noteq> provider sp) (profiles d) \<longrightarrow>
            r = (if \<not> GENERATE_USERNAME cfg
                 then setup_pick_username cfg req d (req_session req) su sp template extra_context
                 else setup_generate cfg uuid req d (req_session req) su sp)
            \<and> (\<not> GENERATE_USERNAME cfg \<longrightarrow> req_method req \<noteq> ''POST'' \<longrightarrow>
                 r = returned (Render template
                        (ctx_update extra_context ''form'' (CForm UserForm_unbound))) d (req_session req)))"
proof (intro conjI impI)
  assume ex: "filter (\<lambda>p. provider p = provider sp \<and> remote_id p = remote_id sp) (profiles d) = ep # rest"
    and tgt: "content_type ep = Some UserModel" "object_id ep = Some k"
    and acc: "filter (\<lambda>u. user_pk u = Some k) (users d) = account # others"
  have r: "r = setup_link_existing cfg req d (req_session req) sp ep"
    using assms(1,2,5) ex by (simp add: setup_view_def Let_def)
  note res = setup_link_existing_result [OF assms(3) ex tgt acc assms(4) r]
  from res show "db_after r
              = d\<lparr>profiles := profiles d @ [sp\<lparr>profile_pk := Some j, content_type := Some UserModel,
                                                 object_id := Some k\<rparr>]\<rparr>" by simp
  from res show "\<exists>url. outcome r = Inr (Redirect url)" by simp
  from res show "auth_user_id (session_after r) = Some k" by simp
  from res show "socialregistration_user (session_after r) = None" by simp
  from res show "socialregistration_profile (session_after r) = None" by simp
next
  assume other: "list_all (\<lambda>p. remote_id p = remote_id sp \<longrightarrow> provider p \<noteq> provider sp) (profiles d)"
  then have none: "filter (\<lambda>p. provider p = provider sp \<and> remote_id p = remote_id sp) (profiles d) = []"
    by (auto simp: list_all_iff filter_empty_conv)
  show branch: "r = (if \<not> GENERATE_USERNAME cfg
                 then setup_pick_username cfg req d (req_session req) su sp template extra_context
                 else setup_generate cfg uuid req d (req_session req) su sp)"
    using assms(1,2,5) none by (simp add: setup_view_def Let_def)
  assume "\<not> GENERATE_USERNAME cfg" and "req_method req \<noteq> ''POST''"
  then show "r = returned (Render template
                        (ctx_update extra_context ''form'' (CForm UserForm_unbound))) d (req_session req)"
    using branch by (simp add: setup_pick_username_def)
qed

theorem setup_creates_one_account_and_profile_witness:
  "db_after (setup_view example_settings ''123e4567-e89b-12d3-a456-426614174000''
       example_post_request (example_db []) ''setup.html'' [])
     = (example_db [])
         \<lparr>users := [alice, \<lparr>user_pk = Some 2, username = ''bob'', email = [],
                              password = ''!'', is_active = True\<rparr>],
          profiles := [\<lparr>profile_pk = Some 1, provider = Twitter, remote_id = ''7'',
                        screenname = ''al'', consumer_key = Some ''tok'', consumer_secret = ''sec'',
                        content_type = Some UserModel, object_id = Some 2\<rparr>]\<rparr>
   \<and> auth_user_id (session_after (setup_view example_settings
         ''123e4567-e89b-12d3-a456-426614174000'' example_post_request (example_db [])
         ''setup.html'' [])) = Some 2
   \<and> db_after (setup_view (example_settings\<lparr>GENERATE_USERNAME := True\<rparr>)
       ''123e4567-e89b-12d3-a456-426614174000''
       (example_request ''GET'' None example_pending) (example_db []) ''setup.html'' [])
     = (example_db [])
         \<lparr>users := [alice, \<lparr>user_pk = Some 2, username = ''123e4567-e89b-12d3-a456-426614'',
                              email = [], password = ''!'', is_active = True\<rparr>],
          profiles := [\<lparr>profile_pk = Some 1, provider = Twitter, remote_id = ''7'',
                        screenname = ''al'', consumer_key = Some ''tok'', consumer_secret = ''sec'',
                        content_type = Some UserModel, object_id = Some 2\<rparr>]\<rparr>
   \<and> socialregistration_profile (session_after (setup_view
         (example_settings\<lparr>GENERATE_USERNAME := True\<rparr>) ''123e4567-e89b-12d3-a456-426614174000''
         (example_request ''GET'' None example_pending) (example_db []) ''setup.html'' [])) = None"
proof -
  let ?uuid = "''123e4567-e89b-12d3-a456-426614174000''"
  let ?sp = "unsaved_profile Twitter ''7'' ''al'' (Some ''tok'') ''sec''"
  have pending: "socialregistration_user example_pending = Some new_User"
    "user_pk new_User = None" "socialregistration_profile example_pending = Some ?sp"
    "profile_pk ?sp = None"
    by (simp_all add: example_defs)
  have db: "filter (\<lambda>p. provider p = provider ?sp \<and> remote_id p = remote_id ?sp)
              (profiles (example_db [])) = []"
    "list_all (\<lambda>v. username v \<noteq> ''bob'') (users (example_db []))"
    "list_all (\<lambda>v. username v \<noteq> ''123e4567-e89b-12d3-a456-426614'') (users (example_db []))"
    "2 = next_pk (map user_pk (users (example_db [])))"
    "1 = next_pk (map profile_pk (filter (\<lambda>q. provider q = provider ?sp) (profiles (example_db []))))"
    by (simp_all add: example_defs next_pk_def)
  have post: "if GENERATE_USERNAME example_settings then ''bob'' = take 30 ?uuid
      else req_method example_post_request = ''POST''
           \<and> map_of (POST example_post_request) ''username'' = Some ''bob'' \<and> ''bob'' \<noteq> []"
    by (simp add: example_post_request_def example_defs)
  have gen: "if GENERATE_USERNAME (example_settings\<lparr>GENERATE_USERNAME := True\<rparr>)
      then ''123e4567-e89b-12d3-a456-426614'' = take 30 ?uuid
      else req_method (example_request ''GET'' None example_pending) = ''POST''
           \<and> map_of (POST (example_request ''GET'' None example_pending)) ''username''
               = Some ''123e4567-e89b-12d3-a456-426614''
           \<and> ''123e4567-e89b-12d3-a456-426614'' \<noteq> []"
    by simp
  have sess: "req_session example_post_request = example_pending"
    "req_session (example_request ''GET'' None example_pending) = example_pending"
    by (simp_all add: example_post_request_def example_request_def)
  note manual = setup_creates_one_account_and_profile
      [where req = example_post_request and cfg = example_settings and uuid = ?uuid
         and template = "''setup.html''" and extra_context = "[]",
       unfolded sess, OF pending db(1) post db(2) db(4) db(5) refl refl]
  note generated = setup_creates_one_account_and_profile
      [where req = "example_request ''GET'' None example_pending"
         and cfg = "example_settings\<lparr>GENERATE_USERNAME := True\<rparr>" and uuid = ?uuid
         and template = "''setup.html''" and extra_context = "[]",
       unfolded sess, OF pending db(1) gen db(3) db(4) db(5) refl refl]
  have rec: "new_User\<lparr>user_pk := Some 2, username := ''bob'', password := UNUSABLE_PASSWORD\<rparr>
      = \<lparr>user_pk = Some 2, username = ''bob'', email = [], password = ''!'', is_active = True\<rparr>"
    "new_User\<lparr>user_pk := Some 2, username := ''123e4567-e89b-12d3-a456-426614'',
              password := UNUSABLE_PASSWORD\<rparr>
      = \<lparr>user_pk = Some 2, username = ''123e4567-e89b-12d3-a456-426614'', email = [],
         password = ''!'', is_active = True\<rparr>"
    "?sp\<lparr>profile_pk := Some 1, content_type := Some UserModel, object_id := Some 2\<rparr>
      = \<lparr>profile_pk = Some 1, provider = Twitter, remote_id = ''7'',
                        screenname = ''al'', consumer_key = Some ''tok'', consumer_secret = ''sec'',
                        content_type = Some UserModel, object_id = Some 2\<rparr>"
    "users (example_db []) = [alice]" "profiles (example_db []) = []"
    by (simp_all add: new_User_def UNUSABLE_PASSWORD_def unsaved_profile_def example_db_def)
  from manual generated show ?thesis
    by (simp add: rec unsaved_profile_def)
qed

theorem setup_reuses_existing_profile_witness:
  "db_after (setup_view example_settings ''123e4567-e89b-12d3-a456-426614174000''
       (example_request ''GET'' None example_pending)
       (example_db [example_profile Twitter ''7'' UserModel 1]) ''setup.html'' [])
     = example_db [example_profile Twitter ''7'' UserModel 1,
         \<lparr>profile_pk = Some 2, provider = Twitter, remote_id = ''7'',
          screenname = ''al'', consumer_key = Some ''tok'', consumer_secret = ''sec'',
          content_type = Some UserModel, object_id = Some 1\<rparr>]
   \<and> auth_user_id (session_after (setup_view example_settings
         ''123e4567-e89b-12d3-a456-426614174000'' (example_request ''GET'' None example_pending)
         (example_db [example_profile Twitter ''7'' UserModel 1]) ''setup.html'' [])) = Some 1
   \<and> setup_view example_settings ''123e4567-e89b-12d3-a456-426614174000''
       (example_request ''GET'' None example_pending)
       (example_db [example_profile Facebook ''7'' UserModel 1]) ''setup.html'' []
     = returned (Render ''setup.html'' [(''form'', CForm UserForm_unbound)])
         (example_db [example_profile Facebook ''7'' UserModel 1]) example_pending"
proof -
  let ?uuid = "''123e4567-e89b-12d3-a456-426614174000''"
  let ?sp = "unsaved_profile Twitter ''7'' ''al'' (Some ''tok'') ''sec''"
  let ?req = "example_request ''GET'' None example_pending"
  let ?d1 = "example_db [example_profile Twitter ''7'' UserModel 1]"
  let ?d2 = "example_db [example_profile Facebook ''7'' UserModel 1]"
  have pending: "socialregistration_user (req_session ?req) = Some new_User"
    "socialregistration_profile (req_session ?req) = Some ?sp" "profile_pk ?sp = None"
    by (simp_all add: example_defs)
  have j: "2 = next_pk (map profile_pk (filter (\<lambda>q. provider q = provider ?sp) (profiles ?d1)))"
    by (simp add: example_defs next_pk_def)
  have hit: "filter (\<lambda>p. provider p = provider ?sp \<and> remote_id p = remote_id ?sp) (profiles ?d1)
               = example_profile Twitter ''7'' UserModel 1 # []"
    "content_type (example_profile Twitter ''7'' UserModel 1) = Some UserModel"
    "object_id (example_profile Twitter ''7'' UserModel 1) = Some 1"
    "filter (\<lambda>u. user_pk u = Some 1) (users ?d1) = alice # []"
    by (simp_all add: example_defs)
  have miss: "list_all (\<lambda>p. remote_id p = remote_id ?sp \<longrightarrow> provider p \<noteq> provider ?sp) (profiles ?d2)"
    "\<not> GENERATE_USERNAME example_settings" "req_method ?req \<noteq> ''POST''"
    by (simp_all add: example_defs)
  note a = setup_reuses_existing_profile [where req = ?req and cfg = example_settings
      and uuid = ?uuid and d = ?d1 and template = "''setup.html''" and extra_context = "[]",
      OF pending j refl, THEN conjunct1, rule_format, OF hit]
  note b = setup_reuses_existing_profile [where req = ?req and cfg = example_settings
      and uuid = ?uuid and d = ?d2 and template = "''setup.html''" and extra_context = "[]",
      OF pending refl refl, THEN conjunct2, rule_format, OF miss(1), THEN conjunct2, rule_format,
      OF miss(2,3)]
  have sess: "req_session ?req = example_pending"
    by (simp add: example_request_def)
  have "ctx_update [] ''form'' (CForm UserForm_unbound) = [(''form'', CForm UserForm_unbound)]"
    by (simp add: ctx_update_def)
  with a b show ?thesis
    by (simp add: sess example_db_def unsaved_profile_def)
qed

end
